theory Spec2Isabelle
  imports Complex_Main "HOL-Library.AList" "HOL-Library.Log_Nat"
begin

section \<open>Shared vocabulary of \<open>fpl_api_statistics.py\<close>\<close>

text \<open>
  The module never raises an exception of its own and never catches one: every failure
  is one of the interpreter's built-in exceptions.  \<open>UnboundLocalError\<close> is what reading
  a local variable that no assignment has reached raises, \<open>IndexError\<close> a list index out
  of range, \<open>KeyError\<close> a missing dictionary key and \<open>TypeError\<close> an ordering
  comparison of an \<open>int\<close> with \<open>None\<close>.
\<close>

datatype py_error = UnboundLocalError | IndexError | KeyError | TypeError

text \<open>\<open>x in range(a, b)\<close> for an integer \<open>x\<close>, and the list \<open>range(a, b)\<close> iterates over.\<close>

definition in_range :: "int \<Rightarrow> int \<Rightarrow> int \<Rightarrow> bool" where
  "in_range x a b \<longleftrightarrow> a \<le> x \<and> x < b"

definition py_range :: "int \<Rightarrow> int \<Rightarrow> int list" where
  "py_range a b = [a..b - 1]"

text \<open>
  \<open>xs[i]\<close>: a negative index counts from the end, and an index outside the list raises
  \<open>IndexError\<close>.
\<close>

definition py_index :: "'a list \<Rightarrow> int \<Rightarrow> py_error + 'a" where
  "py_index xs i =
     (if 0 \<le> i \<and> i < int (length xs) then Inr (xs ! nat i)
      else if i < 0 \<and> - int (length xs) \<le> i then Inr (xs ! nat (int (length xs) + i))
      else Inl IndexError)"

subsection \<open>The JSON documents the module reads\<close>

text \<open>
  Each JSON object is a record of the keys the module reads from it; the field prefix
  names the document (\<open>s_\<close> a standings row, \<open>h_\<close> an entry of a manager's
  \<open>history['current']\<close>, \<open>p_\<close> a pick, \<open>e_\<close> a picks document's \<open>entry_history\<close>,
  \<open>f_\<close> an entry of a player's \<open>history\<close>, \<open>el_\<close> a bootstrap element).  Python's
  integers are unbounded, hence \<open>int\<close>.  The type \<open>'x\<close> stands for Python's \<open>float\<close>:
  \<open>f_expected_goals\<close> is the value \<open>float(...)\<close> returns for the field, and nothing is
  assumed of the addition on \<open>'x\<close> but that it exists.
\<close>

record standing =
  s_entry :: int
  s_player_name :: string
  s_entry_name :: string

record history_entry =
  h_event :: int
  h_points :: int
  h_value :: int
  h_total_points :: int

record pick =
  p_element :: int
  p_multiplier :: int
  p_is_captain :: bool

record entry_history =
  e_points_on_bench :: int
  e_event_transfers :: int

record picks_document =
  picks :: "pick list"
  entry_history :: entry_history

record 'x fixture =
  f_round :: int
  f_total_points :: int
  f_goals_scored :: int
  f_assists :: int
  f_expected_goals :: 'x
  f_expected_assists :: 'x

record element =
  el_id :: int
  el_first_name :: string
  el_second_name :: string
  el_element_type :: int

text \<open>
  The API behind \<open>requests.get(...).json()\<close>, one field per URL the module builds: the
  league standings, the bootstrap elements, \<open>entry/{id}/history\<close>,
  \<open>entry/{id}/event/{gw}/picks\<close> and \<open>element-summary/{id}\<close>.  The API is read only, so
  a fetch is a function of the identifiers in its URL.
\<close>

record 'x data_source =
  league_standings :: "standing list"
  bootstrap_elements :: "element list"
  manager_history :: "int \<Rightarrow> history_entry list"
  manager_picks :: "int \<Rightarrow> int \<Rightarrow> picks_document"
  player_history :: "int \<Rightarrow> 'x fixture list"

subsection \<open>\<open>fetch_manager_information\<close>\<close>

record manager =
  name :: string
  team :: string

text \<open>
  A \<open>dict\<close> keeps its keys in insertion order and an assignment to a key already there
  replaces the value in place: \<open>AList.update\<close>.  \<open>for manager_id in tango_managers\<close> then
  runs over the pairs of the list.
\<close>

definition fetch_manager_information :: "'x data_source \<Rightarrow> (int \<times> manager) list" where
  "fetch_manager_information ds =
     foldl (\<lambda>tango_managers m.
              AList.update (s_entry m) \<lparr>name = s_player_name m, team = s_entry_name m\<rparr>
                tango_managers)
       [] (league_standings ds)"

section \<open>\<open>fetch_coach_of_the_month_and_team_value\<close>\<close>

text \<open>
  \<open>'v\<close> is the float of the team values and \<open>tenth v\<close> is \<open>v / 10.0\<close>.  The locals
  \<open>start_value\<close> and \<open>end_value\<close> are function locals assigned only inside the loop over
  the history: they are unbound (\<open>None\<close>) until an assignment is reached and they keep
  their value from one manager to the next.
\<close>

record 'v value_score =
  points :: int
  end_team_value :: 'v
  team_value_delta :: 'v

text \<open>Lines 97-104: the state is \<open>(total_points, start_value, end_value)\<close>.\<close>

fun history_loop ::
  "(int \<Rightarrow> 'v) \<Rightarrow> int \<Rightarrow> int \<Rightarrow> int \<times> 'v option \<times> 'v option \<Rightarrow> history_entry list
     \<Rightarrow> int \<times> 'v option \<times> 'v option" where
  "history_loop tenth start_gw end_gw st [] = st"
| "history_loop tenth start_gw end_gw (total_points, start_value, end_value) (gameweek # rest) =
     history_loop tenth start_gw end_gw
       (if in_range (h_event gameweek) start_gw (end_gw + 1) then
          (total_points + h_points gameweek,
           (if h_event gameweek = start_gw then Some (tenth (h_value gameweek)) else start_value),
           (if h_event gameweek = end_gw then Some (tenth (h_value gameweek)) else end_value))
        else (total_points, start_value, end_value))
       rest"

text \<open>
  Lines 94-106, the body of the loop over the managers: the score of one manager and the
  two locals as the body leaves them.  The dictionary display of line 106 reads
  \<open>end_value\<close> first and \<open>start_value\<close> after it.
\<close>

definition value_manager ::
  "(int \<Rightarrow> 'v::minus) \<Rightarrow> int \<Rightarrow> int \<Rightarrow> 'v option \<times> 'v option \<Rightarrow> history_entry list
     \<Rightarrow> py_error + ('v value_score \<times> 'v option \<times> 'v option)" where
  "value_manager tenth start_gw end_gw locals current =
     (case history_loop tenth start_gw end_gw (0, fst locals, snd locals) current of
        (total_points, start_value, end_value) \<Rightarrow>
          (case end_value of
             None \<Rightarrow> Inl UnboundLocalError
           | Some ev \<Rightarrow>
               (case start_value of
                  None \<Rightarrow> Inl UnboundLocalError
                | Some sv \<Rightarrow>
                    Inr (\<lparr>points = total_points, end_team_value = ev,
                           team_value_delta = ev - sv\<rparr>, start_value, end_value))))"

text \<open>Lines 88-111: \<open>scores\<close> is keyed by the manager's name.\<close>

fun value_managers ::
  "'x data_source \<Rightarrow> (int \<Rightarrow> 'v::minus) \<Rightarrow> int \<Rightarrow> int
     \<Rightarrow> (string \<rightharpoonup> 'v value_score) \<Rightarrow> 'v option \<times> 'v option \<Rightarrow> (int \<times> manager) list
     \<Rightarrow> py_error + (string \<rightharpoonup> 'v value_score)" where
  "value_managers ds tenth start_gw end_gw scores locals [] = Inr scores"
| "value_managers ds tenth start_gw end_gw scores locals ((manager_id, manager) # rest) =
     (case value_manager tenth start_gw end_gw locals (manager_history ds manager_id) of
        Inl err \<Rightarrow> Inl err
      | Inr (score, locals') \<Rightarrow>
          value_managers ds tenth start_gw end_gw (scores(name manager \<mapsto> score)) locals' rest)"

definition fetch_coach_of_the_month_and_team_value ::
  "'x data_source \<Rightarrow> (int \<Rightarrow> 'v::minus) \<Rightarrow> int \<Rightarrow> int \<Rightarrow> py_error + (string \<rightharpoonup> 'v value_score)" where
  "fetch_coach_of_the_month_and_team_value ds tenth start_gw end_gw =
     value_managers ds tenth start_gw end_gw Map.empty (None, None) (fetch_manager_information ds)"

section \<open>\<open>fetch_captain_bench_transfer\<close>\<close>

record cbt_score =
  points_on_bench_month :: int
  points_on_bench_total :: int
  number_of_transfers_month :: int
  number_of_transfers_total :: int
  captain_points_month :: int
  captain_points_total :: int

text \<open>Lines 139-146.\<close>

definition cbt_initial :: cbt_score where
  "cbt_initial =
     \<lparr>points_on_bench_month = 0, points_on_bench_total = 0, number_of_transfers_month = 0,
      number_of_transfers_total = 0, captain_points_month = 0, captain_points_total = 0\<rparr>"

text \<open>
  Lines 153-155.  \<open>captain\<close> is a function local assigned only under the \<open>if\<close>: unbound
  (\<open>None\<close>) until a flagged pick is met, and otherwise whatever the latest flagged pick
  left in it, in this gameweek or in an earlier one.
\<close>

fun captain_lookup :: "int option \<Rightarrow> pick list \<Rightarrow> int option" where
  "captain_lookup captain [] = captain"
| "captain_lookup captain (pick # rest) =
     captain_lookup (if p_is_captain pick then Some (p_element pick) else captain) rest"

text \<open>Lines 162-165.\<close>

fun captain_loop :: "int \<Rightarrow> int \<Rightarrow> cbt_score \<Rightarrow> 'x fixture list \<Rightarrow> cbt_score" where
  "captain_loop start_gw_month end_gw_month sc [] = sc"
| "captain_loop start_gw_month end_gw_month sc (captain_fixture # rest) =
     captain_loop start_gw_month end_gw_month
       (let sc1 = sc\<lparr>captain_points_total :=
                        captain_points_total sc + f_total_points captain_fixture\<rparr>
        in if in_range (f_round captain_fixture) start_gw_month (end_gw_month + 1)
           then sc1\<lparr>captain_points_month :=
                       captain_points_month sc1 + f_total_points captain_fixture\<rparr>
           else sc1)
       rest"

text \<open>Lines 167-174.\<close>

definition entry_update :: "int \<Rightarrow> int \<Rightarrow> int \<Rightarrow> entry_history \<Rightarrow> cbt_score \<Rightarrow> cbt_score" where
  "entry_update start_gw_month end_gw_month gw entry sc =
     (let sc1 = sc\<lparr>points_on_bench_total := points_on_bench_total sc + e_points_on_bench entry\<rparr>;
          sc2 = sc1\<lparr>number_of_transfers_total :=
                       number_of_transfers_total sc1 + e_event_transfers entry\<rparr>
      in if in_range gw start_gw_month (end_gw_month + 1)
         then (let sc3 = sc2\<lparr>points_on_bench_month :=
                                points_on_bench_month sc2 + e_points_on_bench entry\<rparr>
               in sc3\<lparr>number_of_transfers_month :=
                          number_of_transfers_month sc3 + e_event_transfers entry\<rparr>)
         else sc2)"

text \<open>
  Lines 148-174, the body of the loop over the gameweeks.  The state is the manager's
  entry of \<open>scores\<close> and the local \<open>captain\<close>; reading \<open>captain\<close> on line 158 while it
  is unbound raises.
\<close>

definition cbt_gameweek ::
  "'x data_source \<Rightarrow> int \<Rightarrow> int \<Rightarrow> int \<Rightarrow> cbt_score \<times> int option \<Rightarrow> int
     \<Rightarrow> py_error + (cbt_score \<times> int option)" where
  "cbt_gameweek ds start_gw_month end_gw_month manager_id st gw =
     (let res = manager_picks ds manager_id gw;
          captain = captain_lookup (snd st) (picks res)
      in case captain of
           None \<Rightarrow> Inl UnboundLocalError
         | Some c \<Rightarrow>
             Inr (entry_update start_gw_month end_gw_month gw (entry_history res)
                    (captain_loop start_gw_month end_gw_month (fst st) (player_history ds c)),
                  captain))"

fun cbt_gameweeks ::
  "'x data_source \<Rightarrow> int \<Rightarrow> int \<Rightarrow> int \<Rightarrow> cbt_score \<times> int option \<Rightarrow> int list
     \<Rightarrow> py_error + (cbt_score \<times> int option)" where
  "cbt_gameweeks ds start_gw_month end_gw_month manager_id st [] = Inr st"
| "cbt_gameweeks ds start_gw_month end_gw_month manager_id st (gw # rest) =
     (case cbt_gameweek ds start_gw_month end_gw_month manager_id st gw of
        Inl err \<Rightarrow> Inl err
      | Inr st' \<Rightarrow> cbt_gameweeks ds start_gw_month end_gw_month manager_id st' rest)"

text \<open>Lines 138-174, the body of the loop over the managers.\<close>

definition cbt_manager ::
  "'x data_source \<Rightarrow> int \<Rightarrow> int \<Rightarrow> int \<Rightarrow> int option \<Rightarrow> int
     \<Rightarrow> py_error + (cbt_score \<times> int option)" where
  "cbt_manager ds start_gw_month end_gw_month end_gw_total captain manager_id =
     cbt_gameweeks ds start_gw_month end_gw_month manager_id (cbt_initial, captain)
       (py_range 1 (end_gw_total + 1))"

text \<open>Lines 134-179: \<open>scores\<close> is keyed by the team's name.\<close>

fun cbt_managers ::
  "'x data_source \<Rightarrow> int \<Rightarrow> int \<Rightarrow> int \<Rightarrow> (string \<rightharpoonup> cbt_score) \<Rightarrow> int option
     \<Rightarrow> (int \<times> manager) list \<Rightarrow> py_error + (string \<rightharpoonup> cbt_score)" where
  "cbt_managers ds start_gw_month end_gw_month end_gw_total scores captain [] = Inr scores"
| "cbt_managers ds start_gw_month end_gw_month end_gw_total scores captain
       ((manager_id, manager) # rest) =
     (case cbt_manager ds start_gw_month end_gw_month end_gw_total captain manager_id of
        Inl err \<Rightarrow> Inl err
      | Inr (score, captain') \<Rightarrow>
          cbt_managers ds start_gw_month end_gw_month end_gw_total
            (scores(team manager \<mapsto> score)) captain' rest)"

definition fetch_captain_bench_transfer ::
  "'x data_source \<Rightarrow> int \<Rightarrow> int \<Rightarrow> int \<Rightarrow> py_error + (string \<rightharpoonup> cbt_score)" where
  "fetch_captain_bench_transfer ds start_gw_month end_gw_month end_gw_total =
     cbt_managers ds start_gw_month end_gw_month end_gw_total Map.empty None
       (fetch_manager_information ds)"

section \<open>\<open>update_player_collection\<close>\<close>

datatype position = goalkeeper | defender | midfielder | forward

record player =
  first_name :: string
  second_name :: string
  position :: position

text \<open>Line 24: a dictionary with four keys; any other key raises \<open>KeyError\<close>.\<close>

definition el_type_conversion :: "int \<Rightarrow> py_error + position" where
  "el_type_conversion t =
     (if t = 1 then Inr goalkeeper
      else if t = 2 then Inr defender
      else if t = 3 then Inr midfielder
      else if t = 4 then Inr forward
      else Inl KeyError)"

fun player_collection_loop ::
  "(int \<rightharpoonup> player) \<Rightarrow> element list \<Rightarrow> py_error + (int \<rightharpoonup> player)" where
  "player_collection_loop player_collection [] = Inr player_collection"
| "player_collection_loop player_collection (el # rest) =
     (case el_type_conversion (el_element_type el) of
        Inl err \<Rightarrow> Inl err
      | Inr pos \<Rightarrow>
          player_collection_loop
            (player_collection(el_id el \<mapsto>
               \<lparr>first_name = el_first_name el, second_name = el_second_name el, position = pos\<rparr>))
            rest)"

definition update_player_collection :: "'x data_source \<Rightarrow> py_error + (int \<rightharpoonup> player)" where
  "update_player_collection ds = player_collection_loop Map.empty (bootstrap_elements ds)"

section \<open>\<open>position_bench_goals_assists_xg_xa\<close>\<close>

text \<open>
  The manager's entry of \<open>scores\<close>: the field \<open>k_total\<close> is \<open>scores[team][k]['total']\<close>
  and \<open>k_month\<close> is \<open>scores[team][k]['month']\<close>; the four entries keyed by a position
  are the two functions \<open>position_total\<close> and \<open>position_month\<close>.
\<close>

record 'x position_score =
  position_total :: "position \<Rightarrow> int"
  position_month :: "position \<Rightarrow> int"
  bench_total :: int
  bench_month :: int
  goals_total :: int
  goals_month :: int
  assists_total :: int
  assists_month :: int
  expected_goals_total :: 'x
  expected_goals_month :: 'x
  expected_assists_total :: 'x
  expected_assists_month :: 'x

text \<open>Lines 220-257.\<close>

definition position_initial :: "('x::zero) position_score" where
  "position_initial =
     \<lparr>position_total = (\<lambda>_. 0), position_month = (\<lambda>_. 0), bench_total = 0, bench_month = 0,
      goals_total = 0, goals_month = 0, assists_total = 0, assists_month = 0,
      expected_goals_total = 0, expected_goals_month = 0,
      expected_assists_total = 0, expected_assists_month = 0\<rparr>"

text \<open>Lines 268-271: the multiplier after the captain rule.\<close>

definition captain_rule :: "bool \<Rightarrow> int \<Rightarrow> int" where
  "captain_rule captain_points_included multiplier =
     (if multiplier = 2 then (if \<not> captain_points_included then 1 else multiplier)
      else multiplier)"

text \<open>Line 285: the multiplier after the bench rule, applied when it is \<open>0\<close>.\<close>

definition bench_rule :: "bool \<Rightarrow> int \<Rightarrow> int" where
  "bench_rule bench_included multiplier =
     (if multiplier = 0 then (if bench_included then 1 else multiplier) else multiplier)"

text \<open>Lines 280-283.\<close>

definition bench_update ::
  "int \<Rightarrow> int \<Rightarrow> int \<Rightarrow> int \<Rightarrow> 'x fixture \<Rightarrow> 'x position_score \<Rightarrow> 'x position_score" where
  "bench_update start_gw_month end_gw_month gw multiplier player_history_gw sc =
     (if multiplier = 0 then
        (let sc1 = sc\<lparr>bench_total := bench_total sc + f_total_points player_history_gw\<rparr>
         in if in_range gw start_gw_month (end_gw_month + 1)
            then sc1\<lparr>bench_month := bench_month sc1 + f_total_points player_history_gw\<rparr>
            else sc1)
      else sc)"

text \<open>Lines 287-292.\<close>

definition total_update ::
  "position \<Rightarrow> int \<Rightarrow> 'x fixture \<Rightarrow> ('x::plus) position_score \<Rightarrow> 'x position_score" where
  "total_update pos multiplier player_history_gw sc =
     (let sc1 = sc\<lparr>position_total := (position_total sc)
                      (pos := position_total sc pos + f_total_points player_history_gw * multiplier)\<rparr>
      in if \<not> multiplier = 0 then
           sc1\<lparr>goals_total := goals_total sc1 + f_goals_scored player_history_gw,
               assists_total := assists_total sc1 + f_assists player_history_gw,
               expected_goals_total :=
                 expected_goals_total sc1 + f_expected_goals player_history_gw,
               expected_assists_total :=
                 expected_assists_total sc1 + f_expected_assists player_history_gw\<rparr>
         else sc1)"

text \<open>Lines 293-300.\<close>

definition month_update ::
  "int \<Rightarrow> int \<Rightarrow> int \<Rightarrow> position \<Rightarrow> int \<Rightarrow> 'x fixture \<Rightarrow> ('x::plus) position_score
     \<Rightarrow> 'x position_score" where
  "month_update start_gw_month end_gw_month gw pos multiplier player_history_gw sc =
     (if in_range gw start_gw_month (end_gw_month + 1) then
        (let sc1 = sc\<lparr>position_month := (position_month sc)
                         (pos := position_month sc pos
                                   + f_total_points player_history_gw * multiplier)\<rparr>
         in if \<not> multiplier = 0 then
              sc1\<lparr>goals_month := goals_month sc1 + f_goals_scored player_history_gw,
                  assists_month := assists_month sc1 + f_assists player_history_gw,
                  expected_goals_month :=
                    expected_goals_month sc1 + f_expected_goals player_history_gw,
                  expected_assists_month :=
                    expected_assists_month sc1 + f_expected_assists player_history_gw\<rparr>
            else sc1)
      else sc)"

text \<open>
  Lines 268-271 and 280-300: what one pick adds, once its position and its fixture
  record are known.
\<close>

definition accumulate_pick ::
  "int \<Rightarrow> int \<Rightarrow> bool \<Rightarrow> bool \<Rightarrow> int \<Rightarrow> position \<Rightarrow> pick \<Rightarrow> 'x fixture
     \<Rightarrow> ('x::plus) position_score \<Rightarrow> 'x position_score" where
  "accumulate_pick start_gw_month end_gw_month captain_points_included bench_included gw pos pick
       player_history_gw sc =
     (let multiplier = captain_rule captain_points_included (p_multiplier pick);
          sc1 = bench_update start_gw_month end_gw_month gw multiplier player_history_gw sc;
          multiplier' = bench_rule bench_included multiplier;
          sc2 = total_update pos multiplier' player_history_gw sc1
      in month_update start_gw_month end_gw_month gw pos multiplier' player_history_gw sc2)"

text \<open>
  Lines 265 and 277-278: the position of the pick's player, looked up first, and the
  player's fixture record at index \<open>gw - 1\<close>.
\<close>

definition resolve_pick ::
  "'x data_source \<Rightarrow> (int \<rightharpoonup> player) \<Rightarrow> int \<Rightarrow> pick \<Rightarrow> py_error + (position \<times> 'x fixture)" where
  "resolve_pick ds player_collection gw pick =
     (case player_collection (p_element pick) of
        None \<Rightarrow> Inl KeyError
      | Some pl \<Rightarrow>
          (case py_index (player_history ds (p_element pick)) (gw - 1) of
             Inl err \<Rightarrow> Inl err
           | Inr player_history_gw \<Rightarrow> Inr (position pl, player_history_gw)))"

text \<open>Lines 265-300, the body of the loop over the picks.\<close>

definition position_pick ::
  "'x data_source \<Rightarrow> (int \<rightharpoonup> player) \<Rightarrow> int \<Rightarrow> int \<Rightarrow> bool \<Rightarrow> bool \<Rightarrow> int
     \<Rightarrow> ('x::plus) position_score \<Rightarrow> pick \<Rightarrow> py_error + 'x position_score" where
  "position_pick ds player_collection start_gw_month end_gw_month captain_points_included
       bench_included gw sc pick =
     (case resolve_pick ds player_collection gw pick of
        Inl err \<Rightarrow> Inl err
      | Inr (pos, player_history_gw) \<Rightarrow>
          Inr (accumulate_pick start_gw_month end_gw_month captain_points_included
                 bench_included gw pos pick player_history_gw sc))"

fun position_picks ::
  "'x data_source \<Rightarrow> (int \<rightharpoonup> player) \<Rightarrow> int \<Rightarrow> int \<Rightarrow> bool \<Rightarrow> bool \<Rightarrow> int
     \<Rightarrow> ('x::plus) position_score \<Rightarrow> pick list \<Rightarrow> py_error + 'x position_score" where
  "position_picks ds pc sm em cpi bi gw sc [] = Inr sc"
| "position_picks ds pc sm em cpi bi gw sc (pick # rest) =
     (case position_pick ds pc sm em cpi bi gw sc pick of
        Inl err \<Rightarrow> Inl err
      | Inr sc' \<Rightarrow> position_picks ds pc sm em cpi bi gw sc' rest)"

text \<open>Lines 259-300, the loop over the gameweeks.\<close>

fun position_gameweeks ::
  "'x data_source \<Rightarrow> (int \<rightharpoonup> player) \<Rightarrow> int \<Rightarrow> int \<Rightarrow> bool \<Rightarrow> bool \<Rightarrow> int
     \<Rightarrow> ('x::plus) position_score \<Rightarrow> int list \<Rightarrow> py_error + 'x position_score" where
  "position_gameweeks ds pc sm em cpi bi manager_id sc [] = Inr sc"
| "position_gameweeks ds pc sm em cpi bi manager_id sc (gw # rest) =
     (case position_picks ds pc sm em cpi bi gw sc (picks (manager_picks ds manager_id gw)) of
        Inl err \<Rightarrow> Inl err
      | Inr sc' \<Rightarrow> position_gameweeks ds pc sm em cpi bi manager_id sc' rest)"

text \<open>Lines 302-305: \<open>round2 x\<close> is \<open>round(x, 2)\<close>.\<close>

definition round_expected :: "('x \<Rightarrow> 'x) \<Rightarrow> 'x position_score \<Rightarrow> 'x position_score" where
  "round_expected round2 sc =
     sc\<lparr>expected_goals_total := round2 (expected_goals_total sc),
        expected_goals_month := round2 (expected_goals_month sc),
        expected_assists_total := round2 (expected_assists_total sc),
        expected_assists_month := round2 (expected_assists_month sc)\<rparr>"

text \<open>Lines 218-305, the body of the loop over the managers.\<close>

definition position_manager ::
  "'x data_source \<Rightarrow> ('x \<Rightarrow> 'x) \<Rightarrow> (int \<rightharpoonup> player) \<Rightarrow> int \<Rightarrow> int \<Rightarrow> int \<Rightarrow> bool \<Rightarrow> bool \<Rightarrow> int
     \<Rightarrow> py_error + ('x::{zero,plus}) position_score" where
  "position_manager ds round2 pc sm em end_gw_total cpi bi manager_id =
     (case position_gameweeks ds pc sm em cpi bi manager_id position_initial
             (py_range 1 (end_gw_total + 1)) of
        Inl err \<Rightarrow> Inl err
      | Inr sc \<Rightarrow> Inr (round_expected round2 sc))"

fun position_managers ::
  "'x data_source \<Rightarrow> ('x \<Rightarrow> 'x) \<Rightarrow> (int \<rightharpoonup> player) \<Rightarrow> int \<Rightarrow> int \<Rightarrow> int \<Rightarrow> bool \<Rightarrow> bool
     \<Rightarrow> (string \<rightharpoonup> ('x::{zero,plus}) position_score) \<Rightarrow> (int \<times> manager) list
     \<Rightarrow> py_error + (string \<rightharpoonup> 'x position_score)" where
  "position_managers ds round2 pc sm em egt cpi bi scores [] = Inr scores"
| "position_managers ds round2 pc sm em egt cpi bi scores ((manager_id, manager) # rest) =
     (case position_manager ds round2 pc sm em egt cpi bi manager_id of
        Inl err \<Rightarrow> Inl err
      | Inr score \<Rightarrow>
          position_managers ds round2 pc sm em egt cpi bi (scores(team manager \<mapsto> score)) rest)"

text \<open>Lines 212-307.\<close>

definition position_bench_goals_assists_xg_xa ::
  "'x data_source \<Rightarrow> ('x \<Rightarrow> 'x) \<Rightarrow> int \<Rightarrow> int \<Rightarrow> int \<Rightarrow> bool \<Rightarrow> bool
     \<Rightarrow> py_error + (string \<rightharpoonup> ('x::{zero,plus}) position_score)" where
  "position_bench_goals_assists_xg_xa ds round2 start_gw_month end_gw_month end_gw_total
       captain_points_included bench_included =
     (case update_player_collection ds of
        Inl err \<Rightarrow> Inl err
      | Inr player_collection \<Rightarrow>
          position_managers ds round2 player_collection start_gw_month end_gw_month end_gw_total
            captain_points_included bench_included Map.empty (fetch_manager_information ds))"

section \<open>\<open>least_and_most_points\<close>\<close>

text \<open>Lines 340-345: a bound is \<open>None\<close> until an assignment reaches it.\<close>

record minmax_score =
  min_points_total :: "int option"
  max_points_total :: "int option"
  min_points_month :: "int option"
  max_points_month :: "int option"

definition minmax_initial :: minmax_score where
  "minmax_initial =
     \<lparr>min_points_total = None, max_points_total = None,
      min_points_month = None, max_points_month = None\<rparr>"

text \<open>
  \<open>if x < bound: bound = x\<close> and \<open>if x > bound: bound = x\<close>: the comparison of an
  \<open>int\<close> with \<open>None\<close> raises \<open>TypeError\<close>.
\<close>

definition lower_bound :: "int \<Rightarrow> int option \<Rightarrow> py_error + int option" where
  "lower_bound x bound =
     (case bound of None \<Rightarrow> Inl TypeError | Some b \<Rightarrow> Inr (if x < b then Some x else bound))"

definition upper_bound :: "int \<Rightarrow> int option \<Rightarrow> py_error + int option" where
  "upper_bound x bound =
     (case bound of None \<Rightarrow> Inl TypeError | Some b \<Rightarrow> Inr (if x > b then Some x else bound))"

text \<open>Lines 348-353.\<close>

definition minmax_assign :: "int \<Rightarrow> history_entry \<Rightarrow> minmax_score \<Rightarrow> minmax_score" where
  "minmax_assign start_gw_month gw sc =
     (let sc1 = (if h_event gw = 1
                 then sc\<lparr>min_points_total := Some (h_total_points gw),
                         max_points_total := Some (h_total_points gw)\<rparr>
                 else sc)
      in if h_event gw = start_gw_month
         then sc1\<lparr>min_points_month := Some (h_total_points gw),
                  max_points_month := Some (h_total_points gw)\<rparr>
         else sc1)"

text \<open>Lines 355-358.\<close>

definition minmax_total :: "history_entry \<Rightarrow> minmax_score \<Rightarrow> py_error + minmax_score" where
  "minmax_total gw sc =
     (case lower_bound (h_total_points gw) (min_points_total sc) of
        Inl err \<Rightarrow> Inl err
      | Inr lo \<Rightarrow>
          (case upper_bound (h_total_points gw) (max_points_total sc) of
             Inl err \<Rightarrow> Inl err
           | Inr hi \<Rightarrow> Inr (sc\<lparr>min_points_total := lo, max_points_total := hi\<rparr>)))"

text \<open>Lines 360-364.\<close>

definition minmax_month ::
  "int \<Rightarrow> int \<Rightarrow> history_entry \<Rightarrow> minmax_score \<Rightarrow> py_error + minmax_score" where
  "minmax_month start_gw_month end_gw_month gw sc =
     (if in_range (h_event gw) start_gw_month (end_gw_month + 1) then
        (case lower_bound (h_total_points gw) (min_points_month sc) of
           Inl err \<Rightarrow> Inl err
         | Inr lo \<Rightarrow>
             (case upper_bound (h_total_points gw) (max_points_month sc) of
                Inl err \<Rightarrow> Inl err
              | Inr hi \<Rightarrow> Inr (sc\<lparr>min_points_month := lo, max_points_month := hi\<rparr>)))
      else Inr sc)"

text \<open>Lines 348-364, the body of the loop over the history.\<close>

definition minmax_entry ::
  "int \<Rightarrow> int \<Rightarrow> minmax_score \<Rightarrow> history_entry \<Rightarrow> py_error + minmax_score" where
  "minmax_entry start_gw_month end_gw_month sc gw =
     (let sc1 = minmax_assign start_gw_month gw sc
      in if h_event gw > 1 then
           (case minmax_total gw sc1 of
              Inl err \<Rightarrow> Inl err
            | Inr sc2 \<Rightarrow> minmax_month start_gw_month end_gw_month gw sc2)
         else Inr sc1)"

fun minmax_loop ::
  "int \<Rightarrow> int \<Rightarrow> minmax_score \<Rightarrow> history_entry list \<Rightarrow> py_error + minmax_score" where
  "minmax_loop start_gw_month end_gw_month sc [] = Inr sc"
| "minmax_loop start_gw_month end_gw_month sc (gw # rest) =
     (case minmax_entry start_gw_month end_gw_month sc gw of
        Inl err \<Rightarrow> Inl err
      | Inr sc' \<Rightarrow> minmax_loop start_gw_month end_gw_month sc' rest)"

text \<open>Lines 335-366, the body of the loop over the managers.\<close>

definition minmax_manager :: "int \<Rightarrow> int \<Rightarrow> history_entry list \<Rightarrow> py_error + minmax_score" where
  "minmax_manager start_gw_month end_gw_month current =
     minmax_loop start_gw_month end_gw_month minmax_initial current"

fun minmax_managers ::
  "'x data_source \<Rightarrow> int \<Rightarrow> int \<Rightarrow> (string \<rightharpoonup> minmax_score) \<Rightarrow> (int \<times> manager) list
     \<Rightarrow> py_error + (string \<rightharpoonup> minmax_score)" where
  "minmax_managers ds start_gw_month end_gw_month scores [] = Inr scores"
| "minmax_managers ds start_gw_month end_gw_month scores ((manager_id, manager) # rest) =
     (case minmax_manager start_gw_month end_gw_month (manager_history ds manager_id) of
        Inl err \<Rightarrow> Inl err
      | Inr score \<Rightarrow>
          minmax_managers ds start_gw_month end_gw_month (scores(team manager \<mapsto> score)) rest)"

definition least_and_most_points ::
  "'x data_source \<Rightarrow> int \<Rightarrow> int \<Rightarrow> py_error + (string \<rightharpoonup> minmax_score)" where
  "least_and_most_points ds start_gw_month end_gw_month =
     minmax_managers ds start_gw_month end_gw_month Map.empty (fetch_manager_information ds)"

section \<open>Vocabulary of the statements\<close>

text \<open>The inclusive gameweek range \<open>[start_gw_month, end_gw_month]\<close>.\<close>

definition in_month :: "int \<Rightarrow> int \<Rightarrow> int \<Rightarrow> bool" where
  "in_month start_gw_month end_gw_month gw \<longleftrightarrow> start_gw_month \<le> gw \<and> gw \<le> end_gw_month"

text \<open>
  The sum of the values \<open>v\<close> of those entries of a list that satisfy \<open>P\<close>; for floats, the
  additions in list order starting from \<open>0.0\<close>, as \<open>+=\<close> performs them.
\<close>

definition stat_sum :: "('c \<Rightarrow> bool) \<Rightarrow> ('c \<Rightarrow> int) \<Rightarrow> 'c list \<Rightarrow> int" where
  "stat_sum P v cs = sum_list (map v (filter P cs))"

definition float_sum :: "('c \<Rightarrow> bool) \<Rightarrow> ('c \<Rightarrow> 'x::{zero,plus}) \<Rightarrow> 'c list \<Rightarrow> 'x" where
  "float_sum P v cs = foldl (+) 0 (map v (filter P cs))"

text \<open>
  The gameweek's captain as the data model has it: the pick flagged \<open>is_captain\<close> (the
  last one in list order, should several be flagged).
\<close>

definition flagged_captain :: "pick list \<Rightarrow> int" where
  "flagged_captain ps = p_element (last (filter p_is_captain ps))"

text \<open>
  The fixtures the loop of line 162 runs over while one manager is processed, gameweek
  after gameweek, from the value \<open>captain\<close> has when the manager's loop starts.
\<close>

fun captain_fixtures ::
  "'x data_source \<Rightarrow> int \<Rightarrow> int option \<Rightarrow> int list \<Rightarrow> 'x fixture list" where
  "captain_fixtures ds manager_id captain [] = []"
| "captain_fixtures ds manager_id captain (gw # rest) =
     (case captain_lookup captain (picks (manager_picks ds manager_id gw)) of
        None \<Rightarrow> []
      | Some c \<Rightarrow> player_history ds c @ captain_fixtures ds manager_id (Some c) rest)"

text \<open>
  What the positional report adds up: one contribution for each pick the loops of lines
  259 and 264 visit, with the position and the fixture record lines 265 and 278 find
  for it.
\<close>

record 'x contribution =
  c_gw :: int
  c_position :: position
  c_pick :: pick
  c_fixture :: "'x fixture"

fun pick_contributions ::
  "'x data_source \<Rightarrow> (int \<rightharpoonup> player) \<Rightarrow> int \<Rightarrow> pick list \<Rightarrow> 'x contribution list" where
  "pick_contributions ds pc gw [] = []"
| "pick_contributions ds pc gw (pick # rest) =
     (case resolve_pick ds pc gw pick of
        Inl err \<Rightarrow> []
      | Inr (pos, player_history_gw) \<Rightarrow>
          \<lparr>c_gw = gw, c_position = pos, c_pick = pick, c_fixture = player_history_gw\<rparr>
            # pick_contributions ds pc gw rest)"

definition contributions ::
  "'x data_source \<Rightarrow> (int \<rightharpoonup> player) \<Rightarrow> int \<Rightarrow> int list \<Rightarrow> 'x contribution list" where
  "contributions ds pc manager_id gws =
     concat (map (\<lambda>gw. pick_contributions ds pc gw (picks (manager_picks ds manager_id gw))) gws)"

text \<open>
  A contribution is benched when its multiplier is \<open>0\<close> after the captain rule; its
  final multiplier is the one lines 287-300 use, after the bench rule.
\<close>

definition benched :: "bool \<Rightarrow> 'x contribution \<Rightarrow> bool" where
  "benched cpi c \<longleftrightarrow> captain_rule cpi (p_multiplier (c_pick c)) = 0"

definition final_multiplier :: "bool \<Rightarrow> bool \<Rightarrow> 'x contribution \<Rightarrow> int" where
  "final_multiplier cpi bi c = bench_rule bi (captain_rule cpi (p_multiplier (c_pick c)))"

definition accumulate ::
  "int \<Rightarrow> int \<Rightarrow> bool \<Rightarrow> bool \<Rightarrow> ('x::plus) position_score \<Rightarrow> 'x contribution
     \<Rightarrow> 'x position_score" where
  "accumulate sm em cpi bi sc c =
     accumulate_pick sm em cpi bi (c_gw c) (c_position c) (c_pick c) (c_fixture c) sc"



section \<open>Binary floating point for the examples\<close>

text \<open>
  A Python \<open>float\<close> is an IEEE 754 binary64 number.  In the examples it is the rational
  it denotes, and every operation returns the double nearest to its exact result, exact
  ties going to the even significand.  The model covers magnitudes below \<open>2 ^ 1024\<close>;
  infinities and NaN do not occur in the examples.
\<close>

datatype py_float = Double (double_value: rat)

text \<open>The nearest integer, an exact half going to the even neighbour.\<close>

definition half_even :: "rat \<Rightarrow> int" where
  "half_even x =
     (let f = \<lfloor>x\<rfloor>; d = x - of_int f
      in if d < 1 / 2 then f else if 1 / 2 < d then f + 1 else if even f then f else f + 1)"

definition two_to :: "int \<Rightarrow> rat" where
  "two_to k = (if 0 \<le> k then 2 ^ nat k else 1 / 2 ^ nat (- k))"

text \<open>For \<open>a > 0\<close>, the exponent \<open>e\<close> with \<open>2 ^ e \<le> a < 2 ^ (e + 1)\<close>.\<close>

definition binade :: "rat \<Rightarrow> int" where
  "binade a = (if 1 \<le> a then bitlen \<lfloor>a\<rfloor> - 1 else - bitlen (\<lceil>1 / a\<rceil> - 1))"

text \<open>
  A double has 53 significant bits, so the doubles of a binade are 52 bits below its
  exponent apart; below \<open>2 ^ - 1022\<close> the spacing stays that of the lowest binade.
\<close>

definition nearest_double :: "rat \<Rightarrow> rat" where
  "nearest_double x =
     (if x = 0 then 0
      else (let a = \<bar>x\<bar>; ulp = two_to (max (binade a) (- 1022) - 52)
            in sgn x * of_int (half_even (a / ulp)) * ulp))"

instantiation py_float :: "{zero, plus, minus}"
begin

definition zero_py_float :: py_float where
  "zero_py_float = Double 0"

definition plus_py_float :: "py_float \<Rightarrow> py_float \<Rightarrow> py_float" where
  "plus_py_float x y = Double (nearest_double (double_value x + double_value y))"

definition minus_py_float :: "py_float \<Rightarrow> py_float \<Rightarrow> py_float" where
  "minus_py_float x y = Double (nearest_double (double_value x - double_value y))"

instance ..

end

text \<open>
  \<open>float(s)\<close> for a string \<open>s\<close> that spells the decimal number \<open>r\<close>; \<open>v / 10.0\<close> for an
  integer \<open>v\<close> below \<open>2 ^ 53\<close>; and \<open>round(x, 2)\<close>, which rounds the exact value of \<open>x\<close>
  to two decimals, an exact half going to the even digit, and returns the double nearest
  to that decimal number.
\<close>

definition float_parse :: "rat \<Rightarrow> py_float" where
  "float_parse r = Double (nearest_double r)"

definition tenth_float :: "int \<Rightarrow> py_float" where
  "tenth_float v = Double (nearest_double (of_int v / 10))"

definition round2_float :: "py_float \<Rightarrow> py_float" where
  "round2_float x = Double (nearest_double (of_int (half_even (double_value x * 100)) / 100))"

section \<open>Example leagues\<close>

text \<open>
  Two managers.  Bo joined the league in gameweek 2, so his history has no entry for
  gameweek 1.
\<close>

definition value_league :: "py_float data_source" where
  "value_league =
     \<lparr>league_standings =
        [\<lparr>s_entry = 1, s_player_name = ''Ann'', s_entry_name = ''Ann FC''\<rparr>,
         \<lparr>s_entry = 2, s_player_name = ''Bo'', s_entry_name = ''Bo United''\<rparr>],
      bootstrap_elements = [],
      manager_history = (\<lambda>manager_id.
        if manager_id = 1
        then [\<lparr>h_event = 1, h_points = 50, h_value = 1000, h_total_points = 50\<rparr>,
              \<lparr>h_event = 2, h_points = 60, h_value = 1003, h_total_points = 110\<rparr>,
              \<lparr>h_event = 3, h_points = 45, h_value = 1001, h_total_points = 155\<rparr>]
        else [\<lparr>h_event = 2, h_points = 40, h_value = 990, h_total_points = 40\<rparr>,
              \<lparr>h_event = 3, h_points = 30, h_value = 1002, h_total_points = 70\<rparr>]),
      manager_picks = (\<lambda>manager_id gw.
        \<lparr>picks = [], entry_history = \<lparr>e_points_on_bench = 0, e_event_transfers = 0\<rparr>\<rparr>),
      player_history = (\<lambda>player_id. [])\<rparr>"

text \<open>
  Two managers who carry the same name and whose teams carry the same name.  The first
  one captains player 7, who has 40 points over his season, the second one player 8, who
  has 8.
\<close>

definition namesake_league :: "py_float data_source" where
  "namesake_league =
     \<lparr>league_standings =
        [\<lparr>s_entry = 1, s_player_name = ''Ann'', s_entry_name = ''Tango FC''\<rparr>,
         \<lparr>s_entry = 2, s_player_name = ''Ann'', s_entry_name = ''Tango FC''\<rparr>],
      bootstrap_elements = [],
      manager_history = (\<lambda>manager_id.
        if manager_id = 1
        then [\<lparr>h_event = 1, h_points = 50, h_value = 1000, h_total_points = 50\<rparr>]
        else [\<lparr>h_event = 1, h_points = 30, h_value = 990, h_total_points = 30\<rparr>]),
      manager_picks = (\<lambda>manager_id gw.
        \<lparr>picks =
           [\<lparr>p_element = 7, p_multiplier = (if manager_id = 1 then 2 else 1),
             p_is_captain = (manager_id = 1)\<rparr>,
            \<lparr>p_element = 8, p_multiplier = (if manager_id = 1 then 1 else 2),
             p_is_captain = (manager_id \<noteq> 1)\<rparr>],
         entry_history = \<lparr>e_points_on_bench = 4, e_event_transfers = 1\<rparr>\<rparr>),
      player_history = (\<lambda>player_id.
        if player_id = 7
        then [\<lparr>f_round = 1, f_total_points = 15, f_goals_scored = 2, f_assists = 0,
               f_expected_goals = float_parse (3 / 2), f_expected_assists = 0\<rparr>,
              \<lparr>f_round = 2, f_total_points = 25, f_goals_scored = 3, f_assists = 1,
               f_expected_goals = float_parse 2, f_expected_assists = float_parse (1 / 2)\<rparr>]
        else [\<lparr>f_round = 1, f_total_points = 2, f_goals_scored = 0, f_assists = 0,
               f_expected_goals = 0, f_expected_assists = 0\<rparr>,
              \<lparr>f_round = 2, f_total_points = 6, f_goals_scored = 0, f_assists = 1,
               f_expected_goals = 0, f_expected_assists = float_parse (1 / 4)\<rparr>])\<rparr>"

text \<open>
  One manager.  Player 7 is the flagged captain of gameweeks 1 and 2 and has 40 points
  over his season; gameweek 3 flags both players and gameweek 4 flags nobody.
\<close>

definition captain_league :: "py_float data_source" where
  "captain_league =
     \<lparr>league_standings = [\<lparr>s_entry = 1, s_player_name = ''Ann'', s_entry_name = ''Ann FC''\<rparr>],
      bootstrap_elements = [],
      manager_history = (\<lambda>manager_id. []),
      manager_picks = (\<lambda>manager_id gw.
        \<lparr>picks =
           [\<lparr>p_element = 7, p_multiplier = 2, p_is_captain = (gw \<noteq> 4)\<rparr>,
            \<lparr>p_element = 8, p_multiplier = 1, p_is_captain = (gw = 3)\<rparr>],
         entry_history = \<lparr>e_points_on_bench = 4, e_event_transfers = 1\<rparr>\<rparr>),
      player_history = (\<lambda>player_id.
        if player_id = 7
        then [\<lparr>f_round = 1, f_total_points = 15, f_goals_scored = 2, f_assists = 0,
               f_expected_goals = float_parse (3 / 2), f_expected_assists = 0\<rparr>,
              \<lparr>f_round = 2, f_total_points = 25, f_goals_scored = 3, f_assists = 1,
               f_expected_goals = float_parse 2, f_expected_assists = float_parse (1 / 2)\<rparr>]
        else [\<lparr>f_round = 1, f_total_points = 2, f_goals_scored = 0, f_assists = 0,
               f_expected_goals = 0, f_expected_assists = 0\<rparr>,
              \<lparr>f_round = 2, f_total_points = 6, f_goals_scored = 0, f_assists = 1,
               f_expected_goals = 0, f_expected_assists = float_parse (1 / 4)\<rparr>])\<rparr>"

text \<open>
  One manager with three picks in every gameweek: forward 7 as captain, midfielder 8,
  and goalkeeper 9 on the bench.  Every player has two fixture records.  An expected
  value written \<open>0\<close> is the float \<open>0.0\<close>.
\<close>

definition position_league :: "py_float data_source" where
  "position_league =
     \<lparr>league_standings = [\<lparr>s_entry = 1, s_player_name = ''Ann'', s_entry_name = ''Ann FC''\<rparr>],
      bootstrap_elements =
        [\<lparr>el_id = 7, el_first_name = ''Fay'', el_second_name = ''Front'', el_element_type = 4\<rparr>,
         \<lparr>el_id = 8, el_first_name = ''Max'', el_second_name = ''Middle'', el_element_type = 3\<rparr>,
         \<lparr>el_id = 9, el_first_name = ''Kim'', el_second_name = ''Keeper'', el_element_type = 1\<rparr>],
      manager_history = (\<lambda>manager_id. []),
      manager_picks = (\<lambda>manager_id gw.
        \<lparr>picks =
           [\<lparr>p_element = 7, p_multiplier = 2, p_is_captain = True\<rparr>,
            \<lparr>p_element = 8, p_multiplier = 1, p_is_captain = False\<rparr>,
            \<lparr>p_element = 9, p_multiplier = 0, p_is_captain = False\<rparr>],
         entry_history = \<lparr>e_points_on_bench = 5, e_event_transfers = 1\<rparr>\<rparr>),
      player_history = (\<lambda>player_id.
        if player_id = 7
        then [\<lparr>f_round = 1, f_total_points = 10, f_goals_scored = 2, f_assists = 0,
               f_expected_goals = float_parse (3 / 2), f_expected_assists = 0\<rparr>,
              \<lparr>f_round = 2, f_total_points = 4, f_goals_scored = 0, f_assists = 1,
               f_expected_goals = float_parse (1 / 8), f_expected_assists = float_parse (1 / 2)\<rparr>]
        else if player_id = 8
        then [\<lparr>f_round = 1, f_total_points = 3, f_goals_scored = 0, f_assists = 1,
               f_expected_goals = float_parse (1 / 4), f_expected_assists = float_parse (3 / 4)\<rparr>,
              \<lparr>f_round = 2, f_total_points = 6, f_goals_scored = 1, f_assists = 0,
               f_expected_goals = float_parse (1 / 2), f_expected_assists = 0\<rparr>]
        else [\<lparr>f_round = 1, f_total_points = 5, f_goals_scored = 0, f_assists = 0,
               f_expected_goals = 0, f_expected_assists = 0\<rparr>,
              \<lparr>f_round = 2, f_total_points = 1, f_goals_scored = 0, f_assists = 0,
               f_expected_goals = 0, f_expected_assists = float_parse (1 / 16)\<rparr>])\<rparr>"

definition position_collection :: "int \<rightharpoonup> player" where
  "position_collection =
     [7 \<mapsto> \<lparr>first_name = ''Fay'', second_name = ''Front'', position = forward\<rparr>,
      8 \<mapsto> \<lparr>first_name = ''Max'', second_name = ''Middle'', position = midfielder\<rparr>,
      9 \<mapsto> \<lparr>first_name = ''Kim'', second_name = ''Keeper'', position = goalkeeper\<rparr>]"


section \<open>The season/month point and value report\<close>

lemma history_loop_points:
  "fst (history_loop tenth s e (tp, sv, ev) current) =
     tp + sum_list (map h_points (filter (\<lambda>g. s \<le> h_event g \<and> h_event g \<le> e) current))"
  by (induction current arbitrary: tp sv ev) (auto simp: in_range_def)

lemma history_loop_start:
  "\<forall>g \<in> set current. h_event g \<noteq> s \<Longrightarrow>
     fst (snd (history_loop tenth s e (tp, sv, ev) current)) = sv"
  by (induction current arbitrary: tp sv ev) auto

lemma history_loop_end:
  "\<forall>g \<in> set current. h_event g \<noteq> e \<Longrightarrow>
     snd (snd (history_loop tenth s e (tp, sv, ev) current)) = ev"
  by (induction current arbitrary: tp sv ev) auto

lemma value_manager_unbound:
  assumes "(\<forall>g \<in> set current. h_event g \<noteq> s) \<or> (\<forall>g \<in> set current. h_event g \<noteq> e)"
  shows "value_manager tenth s e (None, None) current = Inl UnboundLocalError"
proof -
  obtain tp sv ev where
    loop: "history_loop tenth s e (0, None, None) current = (tp, sv, ev)"
    by (metis prod_cases3)
  from assms have "sv = None \<or> ev = None"
    using history_loop_start [of current s tenth e 0 None None]
      history_loop_end [of current e tenth s 0 None None] loop by auto
  with loop show ?thesis
    by (auto simp: value_manager_def split: option.splits)
qed

lemma value_manager_points:
  assumes "value_manager tenth start_gw end_gw locals current = Inr (score, locals')"
  shows "points score =
           (\<Sum>gameweek \<leftarrow> filter (\<lambda>g. start_gw \<le> h_event g \<and> h_event g \<le> end_gw) current.
              h_points gameweek)"
proof -
  obtain tp sv ev where
    loop: "history_loop tenth start_gw end_gw (0, fst locals, snd locals) current = (tp, sv, ev)"
    by (metis prod_cases3)
  from assms loop have "points score = tp"
    by (auto simp: value_manager_def split: option.splits)
  moreover
  from history_loop_points [of tenth start_gw end_gw 0 "fst locals" "snd locals" current] loop
  have "tp = sum_list (map h_points
                (filter (\<lambda>g. start_gw \<le> h_event g \<and> h_event g \<le> end_gw) current))"
    by simp
  ultimately show ?thesis by simp
qed

text \<open>
  The entry stored under a name is replaced only by a later manager of that name
  (line 106).
\<close>

lemma value_managers_keep:
  assumes "value_managers ds tenth s e scores locals ms = Inr scores'"
      and "\<forall>(i, m) \<in> set ms. name m \<noteq> nm"
  shows "scores' nm = scores nm"
  using assms
proof (induction ms arbitrary: scores locals)
  case Nil
  then show ?case by simp
next
  case (Cons p ms)
  obtain mid m where p: "p = (mid, m)" by (cases p)
  from Cons.prems(1) p obtain score locals' where
    rest: "value_managers ds tenth s e (scores(name m \<mapsto> score)) locals' ms = Inr scores'"
    by (auto split: sum.splits)
  from Cons.prems(2) p have "name m \<noteq> nm" and "\<forall>(i, m) \<in> set ms. name m \<noteq> nm"
    by simp_all
  with Cons.IH [OF rest] show ?case by simp
qed

lemma value_managers_last:
  assumes "value_managers ds tenth s e scores locals (earlier @ (mid, m) # later) = Inr scores'"
      and "\<forall>(i, m') \<in> set later. name m' \<noteq> name m"
  shows "\<exists>l score l'. value_manager tenth s e l (manager_history ds mid) = Inr (score, l')
           \<and> scores' (name m) = Some score"
  using assms(1)
proof (induction earlier arbitrary: scores locals)
  case Nil
  then obtain score locals' where
    turn: "value_manager tenth s e locals (manager_history ds mid) = Inr (score, locals')"
    and rest: "value_managers ds tenth s e (scores(name m \<mapsto> score)) locals' later = Inr scores'"
    by (auto split: sum.splits)
  from value_managers_keep [OF rest assms(2)] have "scores' (name m) = Some score"
    by simp
  with turn show ?case by blast
next
  case (Cons p earlier)
  obtain mid' m' where p: "p = (mid', m')" by (cases p)
  from Cons.prems p obtain score locals' where
    "value_managers ds tenth s e (scores(name m' \<mapsto> score)) locals'
       (earlier @ (mid, m) # later) = Inr scores'"
    by (auto split: sum.splits)
  from Cons.IH [OF this] show ?case .
qed

text \<open>
  C2 fails.  The two managers of \<open>namesake_league\<close> are both called Ann.  The first one
  scored 50 points in gameweek 1, but the report over gameweek 1 holds a single entry
  for the name, with the 30 points of the second one.
\<close>

theorem value_points_namesake_counterexample:
  "\<exists>scores. fetch_coach_of_the_month_and_team_value namesake_league tenth_float 1 1 = Inr scores
     \<and> map (\<lambda>(i, m). (i, name m)) (fetch_manager_information namesake_league)
         = [(1, ''Ann''), (2, ''Ann'')]
     \<and> (\<Sum>gameweek \<leftarrow> filter (\<lambda>g. 1 \<le> h_event g \<and> h_event g \<le> 1)
                          (manager_history namesake_league 1).
           h_points gameweek) = 50
     \<and> map_option points (scores ''Ann'') = Some 30"
  by (simp add: fetch_coach_of_the_month_and_team_value_def fetch_manager_information_def
      namesake_league_def value_manager_def in_range_def)

text \<open>
  C2, amended.  When the report is produced, the entry it holds under the name of a
  manager whose name no later manager of the league carries has, as its \<open>points\<close>, the
  sum of the \<open>points\<close> of exactly those entries of that manager's history whose event
  lies in \<open>[start_gw, end_gw]\<close>.
\<close>

theorem value_points_sum:
  assumes "fetch_coach_of_the_month_and_team_value ds tenth start_gw end_gw = Inr scores"
      and "fetch_manager_information ds = earlier @ (manager_id, manager) # later"
      and "\<forall>(i, m) \<in> set later. name m \<noteq> name manager"
  shows "\<exists>score. scores (name manager) = Some score
           \<and> points score =
               (\<Sum>gameweek \<leftarrow> filter (\<lambda>g. start_gw \<le> h_event g \<and> h_event g \<le> end_gw)
                                  (manager_history ds manager_id).
                  h_points gameweek)"
proof -
  from assms(1,2) have
    "value_managers ds tenth start_gw end_gw Map.empty (None, None)
       (earlier @ (manager_id, manager) # later) = Inr scores"
    by (simp add: fetch_coach_of_the_month_and_team_value_def)
  from value_managers_last [OF this assms(3)] obtain l score l' where
    turn: "value_manager tenth start_gw end_gw l (manager_history ds manager_id) = Inr (score, l')"
    and entry: "scores (name manager) = Some score"
    by blast
  from value_manager_points [OF turn] entry show ?thesis by simp
qed

text \<open>
  The report of \<open>value_league\<close> over gameweeks 2 to 3: 60 + 45 points for Ann, whose
  history has three entries, and 40 + 30 for Bo.
\<close>

theorem value_points_sum_witness:
  "\<exists>scores. fetch_coach_of_the_month_and_team_value value_league tenth_float 2 3 = Inr scores
     \<and> map (\<lambda>(i, m). (i, name m)) (fetch_manager_information value_league)
         = [(1, ''Ann''), (2, ''Bo'')]
     \<and> map h_event (manager_history value_league 1) = [1, 2, 3]
     \<and> map_option points (scores ''Ann'') = Some 105
     \<and> map_option points (scores ''Bo'') = Some 70"
proof -
  obtain scores where
    run: "fetch_coach_of_the_month_and_team_value value_league tenth_float 2 3 = Inr scores"
    by (simp add: fetch_coach_of_the_month_and_team_value_def fetch_manager_information_def
        value_league_def value_manager_def in_range_def)
  have ann: "fetch_manager_information value_league
               = [] @ (1, \<lparr>name = ''Ann'', team = ''Ann FC''\<rparr>)
                   # [(2, \<lparr>name = ''Bo'', team = ''Bo United''\<rparr>)]"
    by (simp add: fetch_manager_information_def value_league_def)
  have bo: "fetch_manager_information value_league
              = [(1, \<lparr>name = ''Ann'', team = ''Ann FC''\<rparr>)]
                  @ (2, \<lparr>name = ''Bo'', team = ''Bo United''\<rparr>) # []"
    by (simp add: fetch_manager_information_def value_league_def)
  have a: "map_option points (scores ''Ann'') = Some 105"
    using value_points_sum [OF run ann] by (auto simp: value_league_def)
  have b: "map_option points (scores ''Bo'') = Some 70"
    using value_points_sum [OF run bo] by (auto simp: value_league_def)
  from run a b ann show ?thesis
    by (auto simp: value_league_def)
qed

text \<open>
  C7: the code does not do what the claim asks.  Bo joined \<open>value_league\<close> in gameweek 2
  and has no history entry for gameweek 1, yet the report over gameweeks 1 to 3 is
  produced, and Bo's \<open>team_value_delta\<close> is taken from the start value of the manager
  before him: \<open>start_value\<close> and \<open>end_value\<close> are not reset per manager, while
  \<open>total_points\<close> is (line 95).
\<close>

theorem value_late_joiner_stale:
  "\<exists>scores. fetch_coach_of_the_month_and_team_value value_league tenth_float 1 3 = Inr scores
     \<and> map (\<lambda>g. (h_event g, h_value g)) (manager_history value_league 1)
         = [(1, 1000), (2, 1003), (3, 1001)]
     \<and> map (\<lambda>g. (h_event g, h_value g)) (manager_history value_league 2)
         = [(2, 990), (3, 1002)]
     \<and> scores ''Bo''
         = Some \<lparr>points = 70, end_team_value = tenth_float 1002,
                  team_value_delta = tenth_float 1002 - tenth_float 1000\<rparr>"
  by (simp add: fetch_coach_of_the_month_and_team_value_def fetch_manager_information_def
      value_league_def value_manager_def in_range_def)

text \<open>
  Only the first manager of the league is safe from a stale value: when he has no
  history entry with event \<open>start_gw\<close>, or none with event \<open>end_gw\<close>, the report fails
  with the interpreter's \<open>UnboundLocalError\<close>.
\<close>

lemma value_first_manager_unbound:
  assumes "fetch_manager_information ds = (manager_id, manager) # rest"
      and "(\<forall>g \<in> set (manager_history ds manager_id). h_event g \<noteq> start_gw)
             \<or> (\<forall>g \<in> set (manager_history ds manager_id). h_event g \<noteq> end_gw)"
  shows "fetch_coach_of_the_month_and_team_value ds tenth start_gw end_gw
           = Inl UnboundLocalError"
  using assms(1) value_manager_unbound [OF assms(2), of tenth]
  by (simp add: fetch_coach_of_the_month_and_team_value_def)

section \<open>The captain, bench and transfer report\<close>

lemma captain_lookup_none: "\<forall>p \<in> set ps. \<not> p_is_captain p \<Longrightarrow> captain_lookup c ps = c"
  by (induction ps arbitrary: c) auto

lemma captain_lookup_flagged:
  "\<exists>p \<in> set ps. p_is_captain p \<Longrightarrow> captain_lookup c ps = Some (flagged_captain ps)"
proof (induction ps arbitrary: c)
  case Nil
  then show ?case by simp
next
  case (Cons p ps)
  show ?case
  proof (cases "\<exists>q \<in> set ps. p_is_captain q")
    case True
    then have "filter p_is_captain ps \<noteq> []" by (simp add: filter_empty_conv)
    with Cons.IH [OF True] show ?thesis by (simp add: flagged_captain_def)
  next
    case False
    then have "filter p_is_captain ps = []" by (simp add: filter_empty_conv)
    moreover from False Cons.prems have "p_is_captain p" by auto
    moreover from False have "\<forall>q \<in> set ps. \<not> p_is_captain q" by simp
    ultimately show ?thesis by (simp add: flagged_captain_def captain_lookup_none)
  qed
qed

lemma captain_loop_fields:
  "points_on_bench_month (captain_loop sm em sc fs) = points_on_bench_month sc"
  "points_on_bench_total (captain_loop sm em sc fs) = points_on_bench_total sc"
  "number_of_transfers_month (captain_loop sm em sc fs) = number_of_transfers_month sc"
  "number_of_transfers_total (captain_loop sm em sc fs) = number_of_transfers_total sc"
  by (induction fs arbitrary: sc; simp add: Let_def)+

lemma captain_loop_total:
  "captain_points_total (captain_loop sm em sc fs) =
     captain_points_total sc + sum_list (map f_total_points fs)"
  by (induction fs arbitrary: sc) (simp_all add: Let_def)

lemma captain_loop_month:
  "captain_points_month (captain_loop sm em sc fs) =
     captain_points_month sc
       + sum_list (map f_total_points (filter (\<lambda>f. sm \<le> f_round f \<and> f_round f \<le> em) fs))"
  by (induction fs arbitrary: sc) (simp_all add: Let_def in_range_def)

lemma entry_update_fields:
  "captain_points_total (entry_update sm em gw en sc) = captain_points_total sc"
  "captain_points_month (entry_update sm em gw en sc) = captain_points_month sc"
  "points_on_bench_total (entry_update sm em gw en sc) =
     points_on_bench_total sc + e_points_on_bench en"
  "number_of_transfers_total (entry_update sm em gw en sc) =
     number_of_transfers_total sc + e_event_transfers en"
  "points_on_bench_month (entry_update sm em gw en sc) =
     points_on_bench_month sc + (if sm \<le> gw \<and> gw \<le> em then e_points_on_bench en else 0)"
  "number_of_transfers_month (entry_update sm em gw en sc) =
     number_of_transfers_month sc + (if sm \<le> gw \<and> gw \<le> em then e_event_transfers en else 0)"
  by (simp_all add: entry_update_def Let_def in_range_def)

lemma cbt_gameweek_Inr:
  assumes "cbt_gameweek ds sm em mid (sc, cap) gw = Inr (sc', cap')"
  shows "\<exists>c. captain_lookup cap (picks (manager_picks ds mid gw)) = Some c \<and> cap' = Some c
           \<and> sc' = entry_update sm em gw (entry_history (manager_picks ds mid gw))
                     (captain_loop sm em sc (player_history ds c))"
proof (cases "captain_lookup cap (picks (manager_picks ds mid gw))")
  case None
  with assms show ?thesis by (simp add: cbt_gameweek_def Let_def)
next
  case (Some c)
  with assms have "cap' = Some c"
    and "sc' = entry_update sm em gw (entry_history (manager_picks ds mid gw))
                 (captain_loop sm em sc (player_history ds c))"
    by (simp_all add: cbt_gameweek_def Let_def)
  with Some show ?thesis by blast
qed

lemma sum_list_concat_map:
  "sum_list (map f (concat (map g xs))) = (\<Sum>x \<leftarrow> xs. sum_list (map f (g x)))"
  by (induction xs) simp_all

lemma cbt_gameweeks_captain:
  assumes "cbt_gameweeks ds sm em mid (sc, cap) gws = Inr (sc', cap')"
  shows "captain_points_total sc' =
           captain_points_total sc
             + sum_list (map f_total_points (captain_fixtures ds mid cap gws))"
    and "captain_points_month sc' =
           captain_points_month sc
             + sum_list (map f_total_points
                 (filter (\<lambda>f. sm \<le> f_round f \<and> f_round f \<le> em)
                    (captain_fixtures ds mid cap gws)))"
  using assms
proof (induction gws arbitrary: sc cap)
  case Nil
  { case 1 then show ?case by simp }
  { case 2 then show ?case by simp }
next
  case (Cons gw gws)
  { case 1
    then obtain sc1 cap1 where
      step: "cbt_gameweek ds sm em mid (sc, cap) gw = Inr (sc1, cap1)"
      and rest: "cbt_gameweeks ds sm em mid (sc1, cap1) gws = Inr (sc', cap')"
      by (auto split: sum.splits)
    from cbt_gameweek_Inr [OF step] obtain c where
      c: "captain_lookup cap (picks (manager_picks ds mid gw)) = Some c" "cap1 = Some c"
        "sc1 = entry_update sm em gw (entry_history (manager_picks ds mid gw))
                 (captain_loop sm em sc (player_history ds c))"
      by blast
    from Cons.IH(1) [OF rest] c show ?case
      by (simp add: entry_update_fields captain_loop_total) }
  { case 2
    then obtain sc1 cap1 where
      step: "cbt_gameweek ds sm em mid (sc, cap) gw = Inr (sc1, cap1)"
      and rest: "cbt_gameweeks ds sm em mid (sc1, cap1) gws = Inr (sc', cap')"
      by (auto split: sum.splits)
    from cbt_gameweek_Inr [OF step] obtain c where
      c: "captain_lookup cap (picks (manager_picks ds mid gw)) = Some c" "cap1 = Some c"
        "sc1 = entry_update sm em gw (entry_history (manager_picks ds mid gw))
                 (captain_loop sm em sc (player_history ds c))"
      by blast
    from Cons.IH(2) [OF rest] c show ?case
      by (simp add: entry_update_fields captain_loop_month) }
qed

lemma cbt_gameweeks_entry:
  assumes "cbt_gameweeks ds sm em mid (sc, cap) gws = Inr (sc', cap')"
  shows "points_on_bench_total sc' = points_on_bench_total sc
           + (\<Sum>gw \<leftarrow> gws. e_points_on_bench (entry_history (manager_picks ds mid gw)))
       \<and> points_on_bench_month sc' = points_on_bench_month sc
           + (\<Sum>gw \<leftarrow> filter (\<lambda>gw. sm \<le> gw \<and> gw \<le> em) gws.
                e_points_on_bench (entry_history (manager_picks ds mid gw)))
       \<and> number_of_transfers_total sc' = number_of_transfers_total sc
           + (\<Sum>gw \<leftarrow> gws. e_event_transfers (entry_history (manager_picks ds mid gw)))
       \<and> number_of_transfers_month sc' = number_of_transfers_month sc
           + (\<Sum>gw \<leftarrow> filter (\<lambda>gw. sm \<le> gw \<and> gw \<le> em) gws.
                e_event_transfers (entry_history (manager_picks ds mid gw)))"
  using assms
proof (induction gws arbitrary: sc cap)
  case Nil
  then show ?case by simp
next
  case (Cons gw gws)
  then obtain sc1 cap1 where
    step: "cbt_gameweek ds sm em mid (sc, cap) gw = Inr (sc1, cap1)"
    and rest: "cbt_gameweeks ds sm em mid (sc1, cap1) gws = Inr (sc', cap')"
    by (auto split: sum.splits)
  from cbt_gameweek_Inr [OF step] obtain c where
    c: "sc1 = entry_update sm em gw (entry_history (manager_picks ds mid gw))
               (captain_loop sm em sc (player_history ds c))"
    by blast
  from Cons.IH [OF rest] c show ?case
    by (simp add: entry_update_fields captain_loop_fields)
qed

lemma captain_fixtures_flagged:
  "\<forall>gw \<in> set gws. \<exists>p \<in> set (picks (manager_picks ds mid gw)). p_is_captain p \<Longrightarrow>
     captain_fixtures ds mid cap gws =
       concat (map (\<lambda>gw. player_history ds (flagged_captain (picks (manager_picks ds mid gw))))
                 gws)"
  by (induction gws arbitrary: cap) (simp_all add: captain_lookup_flagged)

lemma cbt_gameweeks_flagged_Inr:
  "\<forall>gw \<in> set gws. \<exists>p \<in> set (picks (manager_picks ds mid gw)). p_is_captain p \<Longrightarrow>
     \<exists>st'. cbt_gameweeks ds sm em mid st gws = Inr st'"
  by (induction gws arbitrary: st)
    (simp_all add: cbt_gameweek_def Let_def captain_lookup_flagged)

text \<open>
  When every gameweek from 1 to \<open>end_gw_total\<close> has a pick flagged as captain, a manager's
  turn succeeds whatever \<open>captain\<close> held before, and adds up the whole history of each
  gameweek's captain.
\<close>

lemma cbt_manager_captain_total:
  assumes "\<forall>gw \<in> set (py_range 1 (end_gw_total + 1)).
             \<exists>p \<in> set (picks (manager_picks ds manager_id gw)). p_is_captain p"
  shows "\<exists>score captain'.
           cbt_manager ds start_gw_month end_gw_month end_gw_total captain manager_id
             = Inr (score, captain')
           \<and> captain_points_total score =
               (\<Sum>gw \<leftarrow> py_range 1 (end_gw_total + 1).
                  \<Sum>captain_fixture \<leftarrow>
                      player_history ds (flagged_captain (picks (manager_picks ds manager_id gw))).
                    f_total_points captain_fixture)"
proof -
  let ?gws = "py_range 1 (end_gw_total + 1)"
  from cbt_gameweeks_flagged_Inr [OF assms] obtain score captain' where
    run: "cbt_gameweeks ds start_gw_month end_gw_month manager_id (cbt_initial, captain) ?gws
            = Inr (score, captain')"
    by fastforce
  have "captain_points_total score =
          sum_list (map f_total_points (captain_fixtures ds manager_id captain ?gws))"
    using cbt_gameweeks_captain(1) [OF run] by (simp add: cbt_initial_def)
  also have "\<dots> = (\<Sum>gw \<leftarrow> ?gws.
                  \<Sum>captain_fixture \<leftarrow>
                      player_history ds (flagged_captain (picks (manager_picks ds manager_id gw))).
                    f_total_points captain_fixture)"
    by (simp add: captain_fixtures_flagged [OF assms] sum_list_concat_map)
  finally show ?thesis using run by (simp add: cbt_manager_def)
qed

text \<open>
  The entry stored under a team name is replaced only by a later manager whose team
  carries that name (line 139).
\<close>

lemma cbt_managers_keep:
  assumes "cbt_managers ds sm em egt scores captain ms = Inr scores'"
      and "\<forall>(i, m) \<in> set ms. team m \<noteq> tn"
  shows "scores' tn = scores tn"
  using assms
proof (induction ms arbitrary: scores captain)
  case Nil
  then show ?case by simp
next
  case (Cons p ms)
  obtain mid m where p: "p = (mid, m)" by (cases p)
  from Cons.prems(1) p obtain score captain' where
    rest: "cbt_managers ds sm em egt (scores(team m \<mapsto> score)) captain' ms = Inr scores'"
    by (auto split: sum.splits)
  from Cons.prems(2) p have "team m \<noteq> tn" and "\<forall>(i, m) \<in> set ms. team m \<noteq> tn"
    by simp_all
  with Cons.IH [OF rest] show ?case by simp
qed

lemma cbt_managers_last:
  assumes "cbt_managers ds sm em egt scores captain (earlier @ (mid, m) # later) = Inr scores'"
      and "\<forall>(i, m') \<in> set later. team m' \<noteq> team m"
  shows "\<exists>c score c'. cbt_manager ds sm em egt c mid = Inr (score, c')
           \<and> scores' (team m) = Some score"
  using assms(1)
proof (induction earlier arbitrary: scores captain)
  case Nil
  then obtain score captain' where
    turn: "cbt_manager ds sm em egt captain mid = Inr (score, captain')"
    and rest: "cbt_managers ds sm em egt (scores(team m \<mapsto> score)) captain' later = Inr scores'"
    by (auto split: sum.splits)
  from cbt_managers_keep [OF rest assms(2)] have "scores' (team m) = Some score"
    by simp
  with turn show ?case by blast
next
  case (Cons p earlier)
  obtain mid' m' where p: "p = (mid', m')" by (cases p)
  from Cons.prems p obtain score captain' where
    "cbt_managers ds sm em egt (scores(team m' \<mapsto> score)) captain'
       (earlier @ (mid, m) # later) = Inr scores'"
    by (auto split: sum.splits)
  from Cons.IH [OF this] show ?case .
qed

text \<open>The gameweeks the examples run over.\<close>

lemma py_range_examples:
  "py_range 1 2 = [1]"
  "py_range 1 3 = [1, 2]"
  "py_range 1 4 = [1, 2, 3]"
  "py_range 1 5 = [1, 2, 3, 4]"
  by (simp_all add: py_range_def upto.simps)

text \<open>
  C1 fails.  The teams of the two managers of \<open>namesake_league\<close> are both called Tango
  FC.  The first manager captains player 7 in gameweek 1, whose history adds up to 40
  points, but the report over gameweek 1 holds a single entry for the team name, with
  the 8 points of the second manager's captain.
\<close>

theorem captain_points_namesake_counterexample:
  "\<exists>scores. fetch_captain_bench_transfer namesake_league 1 1 1 = Inr scores
     \<and> map (\<lambda>(i, m). (i, team m)) (fetch_manager_information namesake_league)
         = [(1, ''Tango FC''), (2, ''Tango FC'')]
     \<and> map p_element (filter p_is_captain (picks (manager_picks namesake_league 1 1))) = [7]
     \<and> sum_list (map f_total_points (player_history namesake_league 7)) = 40
     \<and> map_option captain_points_total (scores ''Tango FC'') = Some 8"
  by (simp add: fetch_captain_bench_transfer_def fetch_manager_information_def
      cbt_manager_def cbt_gameweek_def py_range_examples namesake_league_def
      cbt_initial_def entry_update_def in_range_def Let_def)

text \<open>
  C1, amended.  When the report is produced, for a manager whose team name no later
  manager's team carries and whose gameweeks from 1 to \<open>end_gw_total\<close> each have a pick
  flagged as captain, the entry the report holds under the team name has, as its
  \<open>captain_points_total\<close>, the sum, over these gameweeks, of the sum of \<open>total_points\<close>
  over all the fixtures in the history of that gameweek's captain.
\<close>

theorem captain_points_total_sum:
  assumes "fetch_captain_bench_transfer ds start_gw_month end_gw_month end_gw_total = Inr scores"
      and "fetch_manager_information ds = earlier @ (manager_id, manager) # later"
      and "\<forall>(i, m) \<in> set later. team m \<noteq> team manager"
      and "\<forall>gw \<in> set (py_range 1 (end_gw_total + 1)).
             \<exists>p \<in> set (picks (manager_picks ds manager_id gw)). p_is_captain p"
  shows "\<exists>score. scores (team manager) = Some score
           \<and> captain_points_total score =
               (\<Sum>gw \<leftarrow> py_range 1 (end_gw_total + 1).
                  \<Sum>captain_fixture \<leftarrow>
                      player_history ds (flagged_captain (picks (manager_picks ds manager_id gw))).
                    f_total_points captain_fixture)"
proof -
  from assms(1,2) have
    "cbt_managers ds start_gw_month end_gw_month end_gw_total Map.empty None
       (earlier @ (manager_id, manager) # later) = Inr scores"
    by (simp add: fetch_captain_bench_transfer_def)
  from cbt_managers_last [OF this assms(3)] obtain c score c' where
    turn: "cbt_manager ds start_gw_month end_gw_month end_gw_total c manager_id = Inr (score, c')"
    and entry: "scores (team manager) = Some score"
    by blast
  from cbt_manager_captain_total [OF assms(4), of start_gw_month end_gw_month c] turn entry
  show ?thesis by auto
qed

text \<open>
  The double count of the specification: in \<open>captain_league\<close> player 7 has 40 points
  over his season and is the flagged captain of gameweeks 1 and 2, which gives 80 in the
  report over two gameweeks.
\<close>

theorem captain_points_total_sum_witness:
  "\<exists>scores. fetch_captain_bench_transfer captain_league 1 1 2 = Inr scores
     \<and> map_option captain_points_total (scores ''Ann FC'') = Some 80
     \<and> map (\<lambda>gw. flagged_captain (picks (manager_picks captain_league 1 gw)))
           (py_range 1 (2 + 1)) = [7, 7]
     \<and> sum_list (map f_total_points (player_history captain_league 7)) = 40"
proof -
  obtain scores where
    run: "fetch_captain_bench_transfer captain_league 1 1 2 = Inr scores"
    by (simp add: fetch_captain_bench_transfer_def fetch_manager_information_def
        cbt_manager_def cbt_gameweek_def py_range_examples captain_league_def)
  have roster: "fetch_manager_information captain_league
                  = [] @ (1, \<lparr>name = ''Ann'', team = ''Ann FC''\<rparr>) # []"
    by (simp add: fetch_manager_information_def captain_league_def)
  have flagged: "\<forall>gw \<in> set (py_range 1 (2 + 1)).
             \<exists>p \<in> set (picks (manager_picks captain_league 1 gw)). p_is_captain p"
    by (simp add: py_range_examples captain_league_def)
  have "map_option captain_points_total (scores ''Ann FC'') = Some 80"
    using captain_points_total_sum [OF run roster _ flagged]
    by (auto simp: py_range_examples captain_league_def flagged_captain_def)
  with run show ?thesis
    by (auto simp: py_range_examples captain_league_def flagged_captain_def)
qed

text \<open>
  C8 fails.  In \<open>captain_league\<close> no pick of gameweek 4 is flagged, yet the report over
  gameweeks 1 to 4 is produced: gameweek 4 adds the points of player 8, the captain that
  gameweek 3 left in the local \<open>captain\<close>.
\<close>

theorem captain_stale_counterexample:
  "filter p_is_captain (picks (manager_picks captain_league 1 4)) = []
   \<and> cbt_manager captain_league 1 1 4 None 1
       = Inr (\<lparr>points_on_bench_month = 4, points_on_bench_total = 16,
                number_of_transfers_month = 1, number_of_transfers_total = 4,
                captain_points_month = 34, captain_points_total = 96\<rparr>, Some 8)"
  by (simp add: cbt_manager_def cbt_gameweek_def py_range_examples captain_league_def
      cbt_initial_def entry_update_def in_range_def Let_def)

text \<open>
  C8, amended.  When some pick of the gameweek is flagged, the gameweek is computed with a
  pick flagged \<open>is_captain\<close> as its captain, whatever \<open>captain\<close> held before; when no
  pick is flagged and \<open>captain\<close> is still unbound (no gameweek before this one, of this
  manager or of an earlier one, had a flagged pick), the gameweek fails with the
  interpreter's \<open>UnboundLocalError\<close>.
\<close>

theorem captain_flagged_or_unbound:
  "((\<exists>p \<in> set (picks (manager_picks ds manager_id gw)). p_is_captain p) \<longrightarrow>
      (\<exists>p \<in> set (picks (manager_picks ds manager_id gw)).
         p_is_captain p
         \<and> cbt_gameweek ds start_gw_month end_gw_month manager_id (score, captain) gw
             = Inr (entry_update start_gw_month end_gw_month gw
                      (entry_history (manager_picks ds manager_id gw))
                      (captain_loop start_gw_month end_gw_month score
                         (player_history ds (p_element p))),
                    Some (p_element p))))
   \<and> ((\<forall>p \<in> set (picks (manager_picks ds manager_id gw)). \<not> p_is_captain p) \<longrightarrow>
        cbt_gameweek ds start_gw_month end_gw_month manager_id (score, None) gw
          = Inl UnboundLocalError)"
proof (intro conjI impI)
  let ?ps = "picks (manager_picks ds manager_id gw)"
  assume ex: "\<exists>p \<in> set ?ps. p_is_captain p"
  then have "filter p_is_captain ?ps \<noteq> []" by (simp add: filter_empty_conv)
  then have "last (filter p_is_captain ?ps) \<in> set (filter p_is_captain ?ps)"
    by (rule last_in_set)
  then have "last (filter p_is_captain ?ps) \<in> set ?ps" "p_is_captain (last (filter p_is_captain ?ps))"
    by simp_all
  moreover have "cbt_gameweek ds start_gw_month end_gw_month manager_id (score, captain) gw
             = Inr (entry_update start_gw_month end_gw_month gw
                      (entry_history (manager_picks ds manager_id gw))
                      (captain_loop start_gw_month end_gw_month score
                         (player_history ds (p_element (last (filter p_is_captain ?ps))))),
                    Some (p_element (last (filter p_is_captain ?ps))))"
    using captain_lookup_flagged [OF ex, of captain]
    by (simp add: cbt_gameweek_def Let_def flagged_captain_def)
  ultimately show "\<exists>p \<in> set ?ps.
         p_is_captain p
         \<and> cbt_gameweek ds start_gw_month end_gw_month manager_id (score, captain) gw
             = Inr (entry_update start_gw_month end_gw_month gw
                      (entry_history (manager_picks ds manager_id gw))
                      (captain_loop start_gw_month end_gw_month score
                         (player_history ds (p_element p))),
                    Some (p_element p))"
    by blast
next
  assume "\<forall>p \<in> set (picks (manager_picks ds manager_id gw)). \<not> p_is_captain p"
  then show "cbt_gameweek ds start_gw_month end_gw_month manager_id (score, None) gw
          = Inl UnboundLocalError"
    by (simp add: cbt_gameweek_def Let_def captain_lookup_none)
qed

text \<open>Gameweek 1 of \<open>captain_league\<close> flags player 7; gameweek 4 flags nobody.\<close>

theorem captain_flagged_or_unbound_witness:
  "cbt_gameweek captain_league 1 1 1 (cbt_initial, None) 1
     = Inr (\<lparr>points_on_bench_month = 4, points_on_bench_total = 4,
              number_of_transfers_month = 1, number_of_transfers_total = 1,
              captain_points_month = 15, captain_points_total = 40\<rparr>, Some 7)
   \<and> map p_is_captain (picks (manager_picks captain_league 1 1)) = [True, False]
   \<and> cbt_gameweek captain_league 1 1 1 (cbt_initial, None) 4 = Inl UnboundLocalError
   \<and> map p_is_captain (picks (manager_picks captain_league 1 4)) = [False, False]"
proof -
  have a: "\<exists>p \<in> set (picks (manager_picks captain_league 1 1)). p_is_captain p"
    by (simp add: captain_league_def)
  have b: "\<forall>p \<in> set (picks (manager_picks captain_league 1 4)). \<not> p_is_captain p"
    by (simp add: captain_league_def)
  from captain_flagged_or_unbound [of captain_league 1 1 1 1 cbt_initial None] a
  have "\<exists>p \<in> set (picks (manager_picks captain_league 1 1)).
         p_is_captain p
         \<and> cbt_gameweek captain_league 1 1 1 (cbt_initial, None) 1
             = Inr (entry_update 1 1 1 (entry_history (manager_picks captain_league 1 1))
                      (captain_loop 1 1 cbt_initial (player_history captain_league (p_element p))),
                    Some (p_element p))"
    by blast
  then have one: "cbt_gameweek captain_league 1 1 1 (cbt_initial, None) 1
     = Inr (\<lparr>points_on_bench_month = 4, points_on_bench_total = 4,
              number_of_transfers_month = 1, number_of_transfers_total = 1,
              captain_points_month = 15, captain_points_total = 40\<rparr>, Some 7)"
    by (simp add: captain_league_def cbt_initial_def entry_update_def in_range_def Let_def)
  from captain_flagged_or_unbound [of captain_league 1 4 1 1 cbt_initial None] b
  have two: "cbt_gameweek captain_league 1 1 1 (cbt_initial, None) 4 = Inl UnboundLocalError"
    by blast
  from one two show ?thesis by (simp add: captain_league_def)
qed

text \<open>
  C10.  When more than one pick of the gameweek is flagged, the gameweek raises nothing,
  and its captain is the last flagged pick in list order: the captain points added are
  those of that player's history, and \<open>captain\<close> is left holding that player.
\<close>

theorem several_captains_last_wins:
  assumes "1 < length (filter p_is_captain (picks (manager_picks ds manager_id gw)))"
  shows "cbt_gameweek ds start_gw_month end_gw_month manager_id (score, captain) gw
           = Inr (entry_update start_gw_month end_gw_month gw
                    (entry_history (manager_picks ds manager_id gw))
                    (captain_loop start_gw_month end_gw_month score
                       (player_history ds
                          (p_element
                             (last (filter p_is_captain (picks (manager_picks ds manager_id gw))))))),
                  Some (p_element
                          (last (filter p_is_captain (picks (manager_picks ds manager_id gw))))))"
proof -
  from assms have "filter p_is_captain (picks (manager_picks ds manager_id gw)) \<noteq> []"
    by auto
  then have "\<exists>p \<in> set (picks (manager_picks ds manager_id gw)). p_is_captain p"
    by (simp add: filter_empty_conv)
  from captain_lookup_flagged [OF this, of captain] show ?thesis
    by (simp add: cbt_gameweek_def Let_def flagged_captain_def)
qed

text \<open>Gameweek 3 of \<open>captain_league\<close> flags players 7 and 8, in this order.\<close>

theorem several_captains_last_wins_witness:
  "map p_element (filter p_is_captain (picks (manager_picks captain_league 1 3))) = [7, 8]
   \<and> cbt_gameweek captain_league 1 1 1 (cbt_initial, None) 3
       = Inr (\<lparr>points_on_bench_month = 0, points_on_bench_total = 4,
                number_of_transfers_month = 0, number_of_transfers_total = 1,
                captain_points_month = 2, captain_points_total = 8\<rparr>, Some 8)"
proof -
  have "1 < length (filter p_is_captain (picks (manager_picks captain_league 1 3)))"
    by (simp add: captain_league_def)
  from several_captains_last_wins [OF this, of 1 1 cbt_initial None] show ?thesis
    by (simp add: captain_league_def cbt_initial_def entry_update_def in_range_def Let_def)
qed


section \<open>The positional report\<close>

lemma position_picks_foldl:
  "position_picks ds pc sm em cpi bi gw sc ps = Inr sc' \<Longrightarrow>
     sc' = foldl (accumulate sm em cpi bi) sc (pick_contributions ds pc gw ps)"
proof (induction ps arbitrary: sc)
  case Nil
  then show ?case by simp
next
  case (Cons p ps)
  from Cons.prems obtain pos f where
    r: "resolve_pick ds pc gw p = Inr (pos, f)"
    by (auto simp: position_pick_def split: sum.splits)
  with Cons.prems have
    "position_picks ds pc sm em cpi bi gw (accumulate_pick sm em cpi bi gw pos p f sc) ps = Inr sc'"
    by (simp add: position_pick_def)
  from Cons.IH [OF this] r show ?case by (simp add: accumulate_def)
qed

lemma position_gameweeks_foldl:
  "position_gameweeks ds pc sm em cpi bi mid sc gws = Inr sc' \<Longrightarrow>
     sc' = foldl (accumulate sm em cpi bi) sc (contributions ds pc mid gws)"
proof (induction gws arbitrary: sc)
  case Nil
  then show ?case by (simp add: contributions_def)
next
  case (Cons gw gws)
  from Cons.prems obtain sc1 where
    p: "position_picks ds pc sm em cpi bi gw sc (picks (manager_picks ds mid gw)) = Inr sc1"
    and g: "position_gameweeks ds pc sm em cpi bi mid sc1 gws = Inr sc'"
    by (auto split: sum.splits)
  from Cons.IH [OF g] position_picks_foldl [OF p] show ?case
    by (simp add: contributions_def)
qed

lemma accumulate_bench:
  "bench_total (accumulate sm em cpi bi sc c) =
     bench_total sc + (if benched cpi c then f_total_points (c_fixture c) else 0)"
  "bench_month (accumulate sm em cpi bi sc c) =
     bench_month sc
       + (if benched cpi c \<and> in_month sm em (c_gw c) then f_total_points (c_fixture c) else 0)"
  by (simp_all add: accumulate_def accumulate_pick_def bench_update_def total_update_def
      month_update_def Let_def in_range_def benched_def in_month_def)

lemma accumulate_position:
  "position_total (accumulate sm em cpi bi sc c) q =
     position_total sc q
       + (if c_position c = q then f_total_points (c_fixture c) * final_multiplier cpi bi c else 0)"
  "position_month (accumulate sm em cpi bi sc c) q =
     position_month sc q
       + (if c_position c = q \<and> in_month sm em (c_gw c)
          then f_total_points (c_fixture c) * final_multiplier cpi bi c else 0)"
  by (simp_all add: accumulate_def accumulate_pick_def bench_update_def total_update_def
      month_update_def Let_def in_range_def final_multiplier_def in_month_def)

lemma accumulate_goals:
  "goals_total (accumulate sm em cpi bi sc c) =
     goals_total sc + (if final_multiplier cpi bi c \<noteq> 0 then f_goals_scored (c_fixture c) else 0)"
  "goals_month (accumulate sm em cpi bi sc c) =
     goals_month sc
       + (if final_multiplier cpi bi c \<noteq> 0 \<and> in_month sm em (c_gw c)
          then f_goals_scored (c_fixture c) else 0)"
  "assists_total (accumulate sm em cpi bi sc c) =
     assists_total sc + (if final_multiplier cpi bi c \<noteq> 0 then f_assists (c_fixture c) else 0)"
  "assists_month (accumulate sm em cpi bi sc c) =
     assists_month sc
       + (if final_multiplier cpi bi c \<noteq> 0 \<and> in_month sm em (c_gw c)
          then f_assists (c_fixture c) else 0)"
  by (simp_all add: accumulate_def accumulate_pick_def bench_update_def total_update_def
      month_update_def Let_def in_range_def final_multiplier_def in_month_def)

lemma accumulate_expected:
  "expected_goals_total (accumulate sm em cpi bi sc c) =
     (if final_multiplier cpi bi c \<noteq> 0
      then expected_goals_total sc + f_expected_goals (c_fixture c) else expected_goals_total sc)"
  "expected_goals_month (accumulate sm em cpi bi sc c) =
     (if final_multiplier cpi bi c \<noteq> 0 \<and> in_month sm em (c_gw c)
      then expected_goals_month sc + f_expected_goals (c_fixture c) else expected_goals_month sc)"
  "expected_assists_total (accumulate sm em cpi bi sc c) =
     (if final_multiplier cpi bi c \<noteq> 0
      then expected_assists_total sc + f_expected_assists (c_fixture c)
      else expected_assists_total sc)"
  "expected_assists_month (accumulate sm em cpi bi sc c) =
     (if final_multiplier cpi bi c \<noteq> 0 \<and> in_month sm em (c_gw c)
      then expected_assists_month sc + f_expected_assists (c_fixture c)
      else expected_assists_month sc)"
  by (simp_all add: accumulate_def accumulate_pick_def bench_update_def total_update_def
      month_update_def Let_def in_range_def final_multiplier_def in_month_def)

lemma foldl_int_field:
  fixes g :: "'s \<Rightarrow> int"
  assumes "\<And>s c. g (step s c) = g s + (if P c then v c else 0)"
  shows "g (foldl step s cs) = g s + stat_sum P v cs"
  by (induction cs arbitrary: s) (simp_all add: stat_sum_def assms)

lemma foldl_float_field:
  fixes g :: "'s \<Rightarrow> 'x::{zero,plus}"
  assumes "\<And>s c. g (step s c) = (if P c then g s + v c else g s)"
  shows "g (foldl step s cs) = foldl (+) (g s) (map v (filter P cs))"
  by (induction cs arbitrary: s) (simp_all add: assms)

lemma position_gameweeks_int_sums:
  assumes "position_gameweeks ds pc sm em cpi bi mid position_initial gws = Inr sc"
  defines "cs \<equiv> contributions ds pc mid gws"
  shows "position_total sc q =
           stat_sum (\<lambda>c. c_position c = q)
             (\<lambda>c. f_total_points (c_fixture c) * final_multiplier cpi bi c) cs"
    and "position_month sc q =
           stat_sum (\<lambda>c. c_position c = q \<and> in_month sm em (c_gw c))
             (\<lambda>c. f_total_points (c_fixture c) * final_multiplier cpi bi c) cs"
    and "bench_total sc = stat_sum (benched cpi) (\<lambda>c. f_total_points (c_fixture c)) cs"
    and "bench_month sc =
           stat_sum (\<lambda>c. benched cpi c \<and> in_month sm em (c_gw c))
             (\<lambda>c. f_total_points (c_fixture c)) cs"
    and "goals_total sc =
           stat_sum (\<lambda>c. final_multiplier cpi bi c \<noteq> 0) (\<lambda>c. f_goals_scored (c_fixture c)) cs"
    and "goals_month sc =
           stat_sum (\<lambda>c. final_multiplier cpi bi c \<noteq> 0 \<and> in_month sm em (c_gw c))
             (\<lambda>c. f_goals_scored (c_fixture c)) cs"
    and "assists_total sc =
           stat_sum (\<lambda>c. final_multiplier cpi bi c \<noteq> 0) (\<lambda>c. f_assists (c_fixture c)) cs"
    and "assists_month sc =
           stat_sum (\<lambda>c. final_multiplier cpi bi c \<noteq> 0 \<and> in_month sm em (c_gw c))
             (\<lambda>c. f_assists (c_fixture c)) cs"
proof -
  have sc: "sc = foldl (accumulate sm em cpi bi) position_initial cs"
    unfolding cs_def by (rule position_gameweeks_foldl [OF assms(1)])
  show "position_total sc q =
           stat_sum (\<lambda>c. c_position c = q)
             (\<lambda>c. f_total_points (c_fixture c) * final_multiplier cpi bi c) cs"
    unfolding sc
    by (subst foldl_int_field [where g = "\<lambda>s. position_total s q", OF accumulate_position(1)])
      (simp add: position_initial_def)
  show "position_month sc q =
           stat_sum (\<lambda>c. c_position c = q \<and> in_month sm em (c_gw c))
             (\<lambda>c. f_total_points (c_fixture c) * final_multiplier cpi bi c) cs"
    unfolding sc
    by (subst foldl_int_field [where g = "\<lambda>s. position_month s q", OF accumulate_position(2)])
      (simp add: position_initial_def)
  show "bench_total sc = stat_sum (benched cpi) (\<lambda>c. f_total_points (c_fixture c)) cs"
    unfolding sc
    by (subst foldl_int_field [where g = bench_total, OF accumulate_bench(1)])
      (simp add: position_initial_def)
  show "bench_month sc =
           stat_sum (\<lambda>c. benched cpi c \<and> in_month sm em (c_gw c))
             (\<lambda>c. f_total_points (c_fixture c)) cs"
    unfolding sc
    by (subst foldl_int_field [where g = bench_month, OF accumulate_bench(2)])
      (simp add: position_initial_def)
  show "goals_total sc =
           stat_sum (\<lambda>c. final_multiplier cpi bi c \<noteq> 0) (\<lambda>c. f_goals_scored (c_fixture c)) cs"
    unfolding sc
    by (subst foldl_int_field [where g = goals_total, OF accumulate_goals(1)])
      (simp add: position_initial_def)
  show "goals_month sc =
           stat_sum (\<lambda>c. final_multiplier cpi bi c \<noteq> 0 \<and> in_month sm em (c_gw c))
             (\<lambda>c. f_goals_scored (c_fixture c)) cs"
    unfolding sc
    by (subst foldl_int_field [where g = goals_month, OF accumulate_goals(2)])
      (simp add: position_initial_def)
  show "assists_total sc =
           stat_sum (\<lambda>c. final_multiplier cpi bi c \<noteq> 0) (\<lambda>c. f_assists (c_fixture c)) cs"
    unfolding sc
    by (subst foldl_int_field [where g = assists_total, OF accumulate_goals(3)])
      (simp add: position_initial_def)
  show "assists_month sc =
           stat_sum (\<lambda>c. final_multiplier cpi bi c \<noteq> 0 \<and> in_month sm em (c_gw c))
             (\<lambda>c. f_assists (c_fixture c)) cs"
    unfolding sc
    by (subst foldl_int_field [where g = assists_month, OF accumulate_goals(4)])
      (simp add: position_initial_def)
qed

lemma position_gameweeks_float_sums:
  assumes "position_gameweeks ds pc sm em cpi bi mid position_initial gws = Inr sc"
  defines "cs \<equiv> contributions ds pc mid gws"
  shows "expected_goals_total sc =
           float_sum (\<lambda>c. final_multiplier cpi bi c \<noteq> 0) (\<lambda>c. f_expected_goals (c_fixture c)) cs"
    and "expected_goals_month sc =
           float_sum (\<lambda>c. final_multiplier cpi bi c \<noteq> 0 \<and> in_month sm em (c_gw c))
             (\<lambda>c. f_expected_goals (c_fixture c)) cs"
    and "expected_assists_total sc =
           float_sum (\<lambda>c. final_multiplier cpi bi c \<noteq> 0)
             (\<lambda>c. f_expected_assists (c_fixture c)) cs"
    and "expected_assists_month sc =
           float_sum (\<lambda>c. final_multiplier cpi bi c \<noteq> 0 \<and> in_month sm em (c_gw c))
             (\<lambda>c. f_expected_assists (c_fixture c)) cs"
proof -
  have sc: "sc = foldl (accumulate sm em cpi bi) position_initial cs"
    unfolding cs_def by (rule position_gameweeks_foldl [OF assms(1)])
  show "expected_goals_total sc =
           float_sum (\<lambda>c. final_multiplier cpi bi c \<noteq> 0) (\<lambda>c. f_expected_goals (c_fixture c)) cs"
    unfolding sc float_sum_def
    by (subst foldl_float_field [where g = expected_goals_total, OF accumulate_expected(1)])
      (simp add: position_initial_def)
  show "expected_goals_month sc =
           float_sum (\<lambda>c. final_multiplier cpi bi c \<noteq> 0 \<and> in_month sm em (c_gw c))
             (\<lambda>c. f_expected_goals (c_fixture c)) cs"
    unfolding sc float_sum_def
    by (subst foldl_float_field [where g = expected_goals_month, OF accumulate_expected(2)])
      (simp add: position_initial_def)
  show "expected_assists_total sc =
           float_sum (\<lambda>c. final_multiplier cpi bi c \<noteq> 0)
             (\<lambda>c. f_expected_assists (c_fixture c)) cs"
    unfolding sc float_sum_def
    by (subst foldl_float_field [where g = expected_assists_total, OF accumulate_expected(3)])
      (simp add: position_initial_def)
  show "expected_assists_month sc =
           float_sum (\<lambda>c. final_multiplier cpi bi c \<noteq> 0 \<and> in_month sm em (c_gw c))
             (\<lambda>c. f_expected_assists (c_fixture c)) cs"
    unfolding sc float_sum_def
    by (subst foldl_float_field [where g = expected_assists_month, OF accumulate_expected(4)])
      (simp add: position_initial_def)
qed

text \<open>
  C3.  For a pick whose position and fixture record are found and whose multiplier is
  \<open>0\<close> after the captain rule, the body of the loop over the picks adds the fixture's
  points to \<open>bench.total\<close>, and to \<open>bench.month\<close> exactly when the gameweek is in the
  month range, whatever \<open>bench_included\<close> is.  With \<open>bench_included\<close> the pick adds its
  points, with multiplier 1, to its position's total and its goals, assists, expected
  goals and expected assists to the totals (and to the month fields exactly when the
  gameweek is in the month range); without it, none of these accumulators changes.
\<close>

theorem benched_pick:
  assumes "resolve_pick ds pc gw pick = Inr (pos, h)"
      and "captain_rule cpi (p_multiplier pick) = 0"
  shows "\<exists>sc'. position_pick ds pc sm em cpi bi gw sc pick = Inr sc'
     \<and> bench_total sc' = bench_total sc + f_total_points h
     \<and> bench_month sc' = bench_month sc + (if in_month sm em gw then f_total_points h else 0)
     \<and> (if bi
        then position_total sc' = (position_total sc)(pos := position_total sc pos + f_total_points h * 1)
           \<and> goals_total sc' = goals_total sc + f_goals_scored h
           \<and> assists_total sc' = assists_total sc + f_assists h
           \<and> expected_goals_total sc' = expected_goals_total sc + f_expected_goals h
           \<and> expected_assists_total sc' = expected_assists_total sc + f_expected_assists h
           \<and> (if in_month sm em gw
              then position_month sc'
                     = (position_month sc)(pos := position_month sc pos + f_total_points h * 1)
                 \<and> goals_month sc' = goals_month sc + f_goals_scored h
                 \<and> assists_month sc' = assists_month sc + f_assists h
                 \<and> expected_goals_month sc' = expected_goals_month sc + f_expected_goals h
                 \<and> expected_assists_month sc' = expected_assists_month sc + f_expected_assists h
              else position_month sc' = position_month sc
                 \<and> goals_month sc' = goals_month sc
                 \<and> assists_month sc' = assists_month sc
                 \<and> expected_goals_month sc' = expected_goals_month sc
                 \<and> expected_assists_month sc' = expected_assists_month sc)
        else position_total sc' = position_total sc
           \<and> position_month sc' = position_month sc
           \<and> goals_total sc' = goals_total sc
           \<and> goals_month sc' = goals_month sc
           \<and> assists_total sc' = assists_total sc
           \<and> assists_month sc' = assists_month sc
           \<and> expected_goals_total sc' = expected_goals_total sc
           \<and> expected_goals_month sc' = expected_goals_month sc
           \<and> expected_assists_total sc' = expected_assists_total sc
           \<and> expected_assists_month sc' = expected_assists_month sc)"
  using assms
  by (simp add: position_pick_def accumulate_pick_def bench_update_def bench_rule_def
      total_update_def month_update_def in_range_def in_month_def Let_def)


text \<open>
  C9, amended.  When the pick's player is in the player collection and index \<open>gw - 1\<close>
  is beyond the end of the player's own history, the body of the loop over the picks
  fails with the interpreter's \<open>IndexError\<close>, the error of any list index out of range.
\<close>

theorem index_error_generic:
  assumes "pc (p_element pick) = Some pl"
      and "1 \<le> gw"
      and "int (length (player_history ds (p_element pick))) < gw"
  shows "position_pick ds pc sm em cpi bi gw sc pick = Inl IndexError"
  using assms by (simp add: position_pick_def resolve_pick_def py_index_def)




lemma position_manager_Inr:
  assumes "position_manager ds round2 pc sm em egt cpi bi mid = Inr sc"
  shows "\<exists>sc0. position_gameweeks ds pc sm em cpi bi mid position_initial (py_range 1 (egt + 1))
                 = Inr sc0 \<and> sc = round_expected round2 sc0"
  using assms by (auto simp: position_manager_def split: sum.splits)




text \<open>\<open>0.0 + 0.125 + 0.5\<close> is \<open>0.625\<close>, and \<open>round(0.625, 2)\<close> is the double nearest to \<open>0.62\<close>.\<close>

lemma float_examples:
  "0 + float_parse (1 / 8) + float_parse (1 / 2) = Double (5 / 8)"
  "round2_float (Double (5 / 8)) = Double (5584463537939415 / 9007199254740992)"
  "nearest_double (31 / 50) = 5584463537939415 / 9007199254740992"
  by code_simp+

lemmas position_eval =
  position_manager_def position_pick_def resolve_pick_def py_index_def accumulate_pick_def
  bench_update_def total_update_def month_update_def captain_rule_def bench_rule_def
  round_expected_def position_initial_def in_range_def Let_def
  position_league_def position_collection_def py_range_examples

text \<open>
  The benched goalkeeper of \<open>position_league\<close> in gameweek 1, with and without
  \<open>bench_included\<close>.
\<close>

theorem benched_pick_witness:
  "resolve_pick position_league position_collection 1
       \<lparr>p_element = 9, p_multiplier = 0, p_is_captain = False\<rparr>
     = Inr (goalkeeper, \<lparr>f_round = 1, f_total_points = 5, f_goals_scored = 0, f_assists = 0,
                          f_expected_goals = 0, f_expected_assists = 0\<rparr>)
   \<and> captain_rule True 0 = 0
   \<and> (\<exists>sc'. position_pick position_league position_collection 1 1 True True 1 position_initial
               \<lparr>p_element = 9, p_multiplier = 0, p_is_captain = False\<rparr> = Inr sc'
         \<and> bench_total sc' = 5 \<and> bench_month sc' = 5
         \<and> position_total sc' goalkeeper = 5 \<and> position_month sc' goalkeeper = 5)
   \<and> (\<exists>sc'. position_pick position_league position_collection 1 1 True False 1 position_initial
               \<lparr>p_element = 9, p_multiplier = 0, p_is_captain = False\<rparr> = Inr sc'
         \<and> bench_total sc' = 5 \<and> bench_month sc' = 5
         \<and> position_total sc' goalkeeper = 0 \<and> position_month sc' goalkeeper = 0)"
proof -
  let ?p = "\<lparr>p_element = 9, p_multiplier = 0, p_is_captain = False\<rparr>"
  let ?h = "\<lparr>f_round = 1, f_total_points = 5, f_goals_scored = 0, f_assists = 0,
             f_expected_goals = 0::py_float, f_expected_assists = 0::py_float\<rparr>"
  have r: "resolve_pick position_league position_collection 1 ?p = Inr (goalkeeper, ?h)"
    by (simp add: resolve_pick_def py_index_def position_league_def position_collection_def)
  have m: "captain_rule True (p_multiplier ?p) = 0"
    by (simp add: captain_rule_def)
  from benched_pick [OF r m, of 1 1 True position_initial]
  have a: "\<exists>sc'. position_pick position_league position_collection 1 1 True True 1 position_initial
               ?p = Inr sc'
         \<and> bench_total sc' = 5 \<and> bench_month sc' = 5
         \<and> position_total sc' goalkeeper = 5 \<and> position_month sc' goalkeeper = 5"
    by (auto simp: in_month_def position_initial_def)
  from benched_pick [OF r m, of 1 1 False position_initial]
  have b: "\<exists>sc'. position_pick position_league position_collection 1 1 True False 1 position_initial
               ?p = Inr sc'
         \<and> bench_total sc' = 5 \<and> bench_month sc' = 5
         \<and> position_total sc' goalkeeper = 0 \<and> position_month sc' goalkeeper = 0"
    by (auto simp: in_month_def position_initial_def)
  from r m a b show ?thesis by simp
qed

text \<open>
  C9 fails.  Every player of \<open>position_league\<close> has two fixture records, so gameweek 3
  indexes beyond each history: the report fails with \<open>IndexError\<close>, the very error that
  indexing any list out of range yields.
\<close>

theorem index_error_counterexample:
  "map (\<lambda>player_id. length (player_history position_league player_id)) [7, 8, 9] = [2, 2, 2]
   \<and> position_manager position_league round2_float position_collection 1 1 3 True False 1
       = Inl IndexError
   \<and> py_index [10, 20 :: int] 2 = Inl IndexError"
  by (simp add: position_eval)

text \<open>The captain of \<open>position_league\<close> in gameweek 3.\<close>

theorem index_error_generic_witness:
  "position_collection 7 = Some \<lparr>first_name = ''Fay'', second_name = ''Front'', position = forward\<rparr>
   \<and> length (player_history position_league 7) = 2
   \<and> position_pick position_league position_collection 1 1 True False 3 position_initial
        \<lparr>p_element = 7, p_multiplier = 2, p_is_captain = True\<rparr> = Inl IndexError"
proof -
  let ?p = "\<lparr>p_element = 7, p_multiplier = 2, p_is_captain = True\<rparr>"
  have a: "position_collection (p_element ?p)
             = Some \<lparr>first_name = ''Fay'', second_name = ''Front'', position = forward\<rparr>"
    by (simp add: position_collection_def)
  have b: "(1::int) \<le> 3" by simp
  have c: "int (length (player_history position_league (p_element ?p))) < 3"
    by (simp add: position_league_def)
  from index_error_generic [where pc = position_collection and pick = ?p and gw = 3
      and ds = position_league and sm = 1 and em = 1 and cpi = True and bi = False
      and sc = position_initial, OF a b c] a c
  show ?thesis by (simp add: position_league_def)
qed



lemma cbt_manager_sums:
  assumes "cbt_manager ds sm em egt captain mid = Inr (score, captain')"
  defines "gws \<equiv> py_range 1 (egt + 1)"
  shows "points_on_bench_total score
           = stat_sum (\<lambda>gw. True)
               (\<lambda>gw. e_points_on_bench (entry_history (manager_picks ds mid gw))) gws
       \<and> points_on_bench_month score
           = stat_sum (in_month sm em)
               (\<lambda>gw. e_points_on_bench (entry_history (manager_picks ds mid gw))) gws
       \<and> number_of_transfers_total score
           = stat_sum (\<lambda>gw. True)
               (\<lambda>gw. e_event_transfers (entry_history (manager_picks ds mid gw))) gws
       \<and> number_of_transfers_month score
           = stat_sum (in_month sm em)
               (\<lambda>gw. e_event_transfers (entry_history (manager_picks ds mid gw))) gws
       \<and> captain_points_total score
           = stat_sum (\<lambda>f. True) f_total_points (captain_fixtures ds mid captain gws)
       \<and> captain_points_month score
           = stat_sum (\<lambda>f. in_month sm em (f_round f)) f_total_points
               (captain_fixtures ds mid captain gws)"
proof -
  from assms(1) have run:
    "cbt_gameweeks ds sm em mid (cbt_initial, captain) gws = Inr (score, captain')"
    by (simp add: cbt_manager_def gws_def)
  have m: "in_month sm em = (\<lambda>gw. sm \<le> gw \<and> gw \<le> em)"
    by (simp add: fun_eq_iff in_month_def)
  from cbt_gameweeks_entry [OF run] cbt_gameweeks_captain [OF run] show ?thesis
    by (simp add: stat_sum_def cbt_initial_def m)
qed

lemma position_manager_sums:
  assumes "position_manager ds round2 pc sm em egt cpi bi mid = Inr score"
  defines "cs \<equiv> contributions ds pc mid (py_range 1 (egt + 1))"
  shows "(\<forall>q. position_total score q
              = stat_sum (\<lambda>c. c_position c = q)
                  (\<lambda>c. f_total_points (c_fixture c) * final_multiplier cpi bi c) cs
            \<and> position_month score q
              = stat_sum (\<lambda>c. c_position c = q \<and> in_month sm em (c_gw c))
                  (\<lambda>c. f_total_points (c_fixture c) * final_multiplier cpi bi c) cs)
       \<and> bench_total score = stat_sum (benched cpi) (\<lambda>c. f_total_points (c_fixture c)) cs
       \<and> bench_month score
           = stat_sum (\<lambda>c. benched cpi c \<and> in_month sm em (c_gw c))
               (\<lambda>c. f_total_points (c_fixture c)) cs
       \<and> goals_total score
           = stat_sum (\<lambda>c. final_multiplier cpi bi c \<noteq> 0) (\<lambda>c. f_goals_scored (c_fixture c)) cs
       \<and> goals_month score
           = stat_sum (\<lambda>c. final_multiplier cpi bi c \<noteq> 0 \<and> in_month sm em (c_gw c))
               (\<lambda>c. f_goals_scored (c_fixture c)) cs
       \<and> assists_total score
           = stat_sum (\<lambda>c. final_multiplier cpi bi c \<noteq> 0) (\<lambda>c. f_assists (c_fixture c)) cs
       \<and> assists_month score
           = stat_sum (\<lambda>c. final_multiplier cpi bi c \<noteq> 0 \<and> in_month sm em (c_gw c))
               (\<lambda>c. f_assists (c_fixture c)) cs
       \<and> expected_goals_total score
           = round2 (float_sum (\<lambda>c. final_multiplier cpi bi c \<noteq> 0)
                       (\<lambda>c. f_expected_goals (c_fixture c)) cs)
       \<and> expected_goals_month score
           = round2 (float_sum (\<lambda>c. final_multiplier cpi bi c \<noteq> 0 \<and> in_month sm em (c_gw c))
                       (\<lambda>c. f_expected_goals (c_fixture c)) cs)
       \<and> expected_assists_total score
           = round2 (float_sum (\<lambda>c. final_multiplier cpi bi c \<noteq> 0)
                       (\<lambda>c. f_expected_assists (c_fixture c)) cs)
       \<and> expected_assists_month score
           = round2 (float_sum (\<lambda>c. final_multiplier cpi bi c \<noteq> 0 \<and> in_month sm em (c_gw c))
                       (\<lambda>c. f_expected_assists (c_fixture c)) cs)"
proof -
  from position_manager_Inr [OF assms(1)] obtain sc0 where
    run: "position_gameweeks ds pc sm em cpi bi mid position_initial (py_range 1 (egt + 1))
            = Inr sc0"
    and sc: "score = round_expected round2 sc0"
    by blast
  note i = position_gameweeks_int_sums [OF run, folded cs_def]
  note f = position_gameweeks_float_sums [OF run, folded cs_def]
  have "position_total score q = position_total sc0 q" "position_month score q = position_month sc0 q"
    "bench_total score = bench_total sc0" "bench_month score = bench_month sc0"
    "goals_total score = goals_total sc0" "goals_month score = goals_month sc0"
    "assists_total score = assists_total sc0" "assists_month score = assists_month sc0"
    "expected_goals_total score = round2 (expected_goals_total sc0)"
    "expected_goals_month score = round2 (expected_goals_month sc0)"
    "expected_assists_total score = round2 (expected_assists_total sc0)"
    "expected_assists_month score = round2 (expected_assists_month sc0)" for q
    by (simp_all add: sc round_expected_def)
  then show ?thesis
    by (simp only: i f simp_thms)
qed

lemma position_managers_keep:
  assumes "position_managers ds round2 pc sm em egt cpi bi scores ms = Inr scores'"
      and "\<forall>(i, m) \<in> set ms. team m \<noteq> tn"
  shows "scores' tn = scores tn"
  using assms
proof (induction ms arbitrary: scores)
  case Nil
  then show ?case by simp
next
  case (Cons p ms)
  obtain mid m where p: "p = (mid, m)" by (cases p)
  from Cons.prems(1) p obtain score where
    rest: "position_managers ds round2 pc sm em egt cpi bi (scores(team m \<mapsto> score)) ms
             = Inr scores'"
    by (auto split: sum.splits)
  from Cons.prems(2) p have "team m \<noteq> tn" and "\<forall>(i, m) \<in> set ms. team m \<noteq> tn"
    by simp_all
  with Cons.IH [OF rest] show ?case by simp
qed

lemma position_managers_last:
  assumes "position_managers ds round2 pc sm em egt cpi bi scores (earlier @ (mid, m) # later)
             = Inr scores'"
      and "\<forall>(i, m') \<in> set later. team m' \<noteq> team m"
  shows "\<exists>score. position_manager ds round2 pc sm em egt cpi bi mid = Inr score
           \<and> scores' (team m) = Some score"
  using assms(1)
proof (induction earlier arbitrary: scores)
  case Nil
  then obtain score where
    turn: "position_manager ds round2 pc sm em egt cpi bi mid = Inr score"
    and rest: "position_managers ds round2 pc sm em egt cpi bi (scores(team m \<mapsto> score)) later
                 = Inr scores'"
    by (auto split: sum.splits)
  from position_managers_keep [OF rest assms(2)] have "scores' (team m) = Some score"
    by simp
  with turn show ?case by blast
next
  case (Cons p earlier)
  obtain mid' m' where p: "p = (mid', m')" by (cases p)
  from Cons.prems p obtain score where
    "position_managers ds round2 pc sm em egt cpi bi (scores(team m' \<mapsto> score))
       (earlier @ (mid, m) # later) = Inr scores'"
    by (auto split: sum.splits)
  from Cons.IH [OF this] show ?case .
qed

lemma cbt_report_last:
  assumes "fetch_captain_bench_transfer ds sm em egt = Inr scores"
      and "fetch_manager_information ds = earlier @ (mid, manager) # later"
      and "\<forall>(i, m) \<in> set later. team m \<noteq> team manager"
  shows "\<exists>c sc c'. scores (team manager) = Some sc
           \<and> cbt_manager ds sm em egt c mid = Inr (sc, c')"
proof -
  from assms(1,2) have
    "cbt_managers ds sm em egt Map.empty None (earlier @ (mid, manager) # later) = Inr scores"
    by (simp add: fetch_captain_bench_transfer_def)
  from cbt_managers_last [OF this assms(3)] show ?thesis by blast
qed

lemma position_report_last:
  assumes "position_bench_goals_assists_xg_xa ds round2 sm em egt cpi bi = Inr pscores"
      and "fetch_manager_information ds = earlier @ (mid, manager) # later"
      and "\<forall>(i, m) \<in> set later. team m \<noteq> team manager"
  shows "\<exists>collection sc. update_player_collection ds = Inr collection
           \<and> pscores (team manager) = Some sc
           \<and> position_manager ds round2 collection sm em egt cpi bi mid = Inr sc"
proof -
  from assms(1,2) obtain collection where
    pc: "update_player_collection ds = Inr collection"
    and run: "position_managers ds round2 collection sm em egt cpi bi Map.empty
                (earlier @ (mid, manager) # later) = Inr pscores"
    by (auto simp: position_bench_goals_assists_xg_xa_def split: sum.splits)
  from position_managers_last [OF run assms(3)] pc show ?thesis by blast
qed

text \<open>
  C5, amended.  In both reports with paired statistics, whenever a manager's turn
  succeeds, each total accumulator is the sum of its contributions and the month
  accumulator beside it is the sum of exactly those of the same contributions whose
  gameweek lies in \<open>[start_gw_month, end_gw_month]\<close> (for the captain points: whose
  fixture round does).  The contributions are, for bench points and transfers, one per
  gameweek; for captain points, one per fixture the captain loop visits; for the
  positional report, one per visited pick, which counts for the bench when benched, for
  its position with its final multiplier, and for goals, assists, expected goals and
  expected assists when its final multiplier is not \<open>0\<close>.  The expected goals and
  assists are float sums in visiting order, and the report holds each of them rounded to
  two decimals.  When a report is produced, the entry it holds under the team name of a
  manager whose team name no later manager's team carries is the score of that manager's
  turn.
\<close>

theorem month_accumulators_restrict_totals:
  "(cbt_manager ds sm em egt captain mid = Inr (score, captain') \<longrightarrow>
      points_on_bench_total score
        = stat_sum (\<lambda>gw. True)
            (\<lambda>gw. e_points_on_bench (entry_history (manager_picks ds mid gw)))
            (py_range 1 (egt + 1))
    \<and> points_on_bench_month score
        = stat_sum (in_month sm em)
            (\<lambda>gw. e_points_on_bench (entry_history (manager_picks ds mid gw)))
            (py_range 1 (egt + 1))
    \<and> number_of_transfers_total score
        = stat_sum (\<lambda>gw. True)
            (\<lambda>gw. e_event_transfers (entry_history (manager_picks ds mid gw)))
            (py_range 1 (egt + 1))
    \<and> number_of_transfers_month score
        = stat_sum (in_month sm em)
            (\<lambda>gw. e_event_transfers (entry_history (manager_picks ds mid gw)))
            (py_range 1 (egt + 1))
    \<and> captain_points_total score
        = stat_sum (\<lambda>f. True) f_total_points
            (captain_fixtures ds mid captain (py_range 1 (egt + 1)))
    \<and> captain_points_month score
        = stat_sum (\<lambda>f. in_month sm em (f_round f)) f_total_points
            (captain_fixtures ds mid captain (py_range 1 (egt + 1))))
   \<and> (position_manager ds round2 pc sm em egt cpi bi mid = Inr pscore \<longrightarrow>
      (\<forall>q. position_total pscore q
             = stat_sum (\<lambda>c. c_position c = q)
                 (\<lambda>c. f_total_points (c_fixture c) * final_multiplier cpi bi c)
                 (contributions ds pc mid (py_range 1 (egt + 1)))
          \<and> position_month pscore q
             = stat_sum (\<lambda>c. c_position c = q \<and> in_month sm em (c_gw c))
                 (\<lambda>c. f_total_points (c_fixture c) * final_multiplier cpi bi c)
                 (contributions ds pc mid (py_range 1 (egt + 1))))
    \<and> bench_total pscore
        = stat_sum (benched cpi) (\<lambda>c. f_total_points (c_fixture c))
            (contributions ds pc mid (py_range 1 (egt + 1)))
    \<and> bench_month pscore
        = stat_sum (\<lambda>c. benched cpi c \<and> in_month sm em (c_gw c))
            (\<lambda>c. f_total_points (c_fixture c))
            (contributions ds pc mid (py_range 1 (egt + 1)))
    \<and> goals_total pscore
        = stat_sum (\<lambda>c. final_multiplier cpi bi c \<noteq> 0) (\<lambda>c. f_goals_scored (c_fixture c))
            (contributions ds pc mid (py_range 1 (egt + 1)))
    \<and> goals_month pscore
        = stat_sum (\<lambda>c. final_multiplier cpi bi c \<noteq> 0 \<and> in_month sm em (c_gw c))
            (\<lambda>c. f_goals_scored (c_fixture c))
            (contributions ds pc mid (py_range 1 (egt + 1)))
    \<and> assists_total pscore
        = stat_sum (\<lambda>c. final_multiplier cpi bi c \<noteq> 0) (\<lambda>c. f_assists (c_fixture c))
            (contributions ds pc mid (py_range 1 (egt + 1)))
    \<and> assists_month pscore
        = stat_sum (\<lambda>c. final_multiplier cpi bi c \<noteq> 0 \<and> in_month sm em (c_gw c))
            (\<lambda>c. f_assists (c_fixture c))
            (contributions ds pc mid (py_range 1 (egt + 1)))
    \<and> expected_goals_total pscore
        = round2 (float_sum (\<lambda>c. final_multiplier cpi bi c \<noteq> 0)
                    (\<lambda>c. f_expected_goals (c_fixture c))
                    (contributions ds pc mid (py_range 1 (egt + 1))))
    \<and> expected_goals_month pscore
        = round2 (float_sum (\<lambda>c. final_multiplier cpi bi c \<noteq> 0 \<and> in_month sm em (c_gw c))
                    (\<lambda>c. f_expected_goals (c_fixture c))
                    (contributions ds pc mid (py_range 1 (egt + 1))))
    \<and> expected_assists_total pscore
        = round2 (float_sum (\<lambda>c. final_multiplier cpi bi c \<noteq> 0)
                    (\<lambda>c. f_expected_assists (c_fixture c))
                    (contributions ds pc mid (py_range 1 (egt + 1))))
    \<and> expected_assists_month pscore
        = round2 (float_sum (\<lambda>c. final_multiplier cpi bi c \<noteq> 0 \<and> in_month sm em (c_gw c))
                    (\<lambda>c. f_expected_assists (c_fixture c))
                    (contributions ds pc mid (py_range 1 (egt + 1)))))
   \<and> (fetch_captain_bench_transfer ds sm em egt = Inr scores
        \<and> fetch_manager_information ds = earlier @ (mid, manager) # later
        \<and> (\<forall>(i, m) \<in> set later. team m \<noteq> team manager) \<longrightarrow>
      (\<exists>c sc c'. scores (team manager) = Some sc
         \<and> cbt_manager ds sm em egt c mid = Inr (sc, c')))
   \<and> (position_bench_goals_assists_xg_xa ds round2 sm em egt cpi bi = Inr pscores
        \<and> fetch_manager_information ds = earlier @ (mid, manager) # later
        \<and> (\<forall>(i, m) \<in> set later. team m \<noteq> team manager) \<longrightarrow>
      (\<exists>collection sc. update_player_collection ds = Inr collection
         \<and> pscores (team manager) = Some sc
         \<and> position_manager ds round2 collection sm em egt cpi bi mid = Inr sc))"
  using cbt_manager_sums [of ds sm em egt captain mid score captain']
    position_manager_sums [of ds round2 pc sm em egt cpi bi mid pscore]
    cbt_report_last [of ds sm em egt scores earlier mid manager later]
    position_report_last [of ds round2 sm em egt cpi bi pscores earlier mid manager later]
  by blast

text \<open>The picks the positional report visits in \<open>position_league\<close> over two gameweeks.\<close>

lemma position_league_contributions:
  "contributions position_league position_collection 1 (py_range 1 3) =
    [\<lparr>c_gw = 1, c_position = forward,
       c_pick = \<lparr>p_element = 7, p_multiplier = 2, p_is_captain = True\<rparr>,
       c_fixture = \<lparr>f_round = 1, f_total_points = 10, f_goals_scored = 2, f_assists = 0,
                     f_expected_goals = float_parse (3 / 2), f_expected_assists = 0\<rparr>\<rparr>,
     \<lparr>c_gw = 1, c_position = midfielder,
       c_pick = \<lparr>p_element = 8, p_multiplier = 1, p_is_captain = False\<rparr>,
       c_fixture = \<lparr>f_round = 1, f_total_points = 3, f_goals_scored = 0, f_assists = 1,
                     f_expected_goals = float_parse (1 / 4), f_expected_assists = float_parse (3 / 4)\<rparr>\<rparr>,
     \<lparr>c_gw = 1, c_position = goalkeeper,
       c_pick = \<lparr>p_element = 9, p_multiplier = 0, p_is_captain = False\<rparr>,
       c_fixture = \<lparr>f_round = 1, f_total_points = 5, f_goals_scored = 0, f_assists = 0,
                     f_expected_goals = 0, f_expected_assists = 0\<rparr>\<rparr>,
     \<lparr>c_gw = 2, c_position = forward,
       c_pick = \<lparr>p_element = 7, p_multiplier = 2, p_is_captain = True\<rparr>,
       c_fixture = \<lparr>f_round = 2, f_total_points = 4, f_goals_scored = 0, f_assists = 1,
                     f_expected_goals = float_parse (1 / 8), f_expected_assists = float_parse (1 / 2)\<rparr>\<rparr>,
     \<lparr>c_gw = 2, c_position = midfielder,
       c_pick = \<lparr>p_element = 8, p_multiplier = 1, p_is_captain = False\<rparr>,
       c_fixture = \<lparr>f_round = 2, f_total_points = 6, f_goals_scored = 1, f_assists = 0,
                     f_expected_goals = float_parse (1 / 2), f_expected_assists = 0\<rparr>\<rparr>,
     \<lparr>c_gw = 2, c_position = goalkeeper,
       c_pick = \<lparr>p_element = 9, p_multiplier = 0, p_is_captain = False\<rparr>,
       c_fixture = \<lparr>f_round = 2, f_total_points = 1, f_goals_scored = 0, f_assists = 0,
                     f_expected_goals = 0, f_expected_assists = float_parse (1 / 16)\<rparr>\<rparr>]"
  by (simp add: contributions_def resolve_pick_def py_index_def position_league_def
      position_collection_def py_range_examples)

text \<open>
  C5 fails for the expected goals.  In \<open>position_league\<close> with gameweek 2 as the month,
  the expected goals of the month's counted picks add up to \<open>0.625\<close>, while the report's
  \<open>expected_goals.month\<close> is \<open>round(0.625, 2)\<close>, the double nearest to \<open>0.62\<close>.
\<close>

theorem month_expected_goals_counterexample:
  "\<exists>pscore.
     position_manager position_league round2_float position_collection 2 2 2 True False 1
       = Inr pscore
     \<and> float_sum (\<lambda>c. final_multiplier True False c \<noteq> 0 \<and> in_month 2 2 (c_gw c))
          (\<lambda>c. f_expected_goals (c_fixture c))
          (contributions position_league position_collection 1 (py_range 1 (2 + 1)))
         = Double (5 / 8)
     \<and> expected_goals_month pscore = Double (nearest_double (31 / 50))
     \<and> expected_goals_month pscore
         \<noteq> float_sum (\<lambda>c. final_multiplier True False c \<noteq> 0 \<and> in_month 2 2 (c_gw c))
             (\<lambda>c. f_expected_goals (c_fixture c))
             (contributions position_league position_collection 1 (py_range 1 (2 + 1)))"
proof -
  obtain pscore where
    run: "position_manager position_league round2_float position_collection 2 2 2 True False 1
            = Inr pscore"
    by (simp add: position_eval)
  then have "expected_goals_month pscore
               = round2_float (0 + float_parse (1 / 8) + float_parse (1 / 2))"
    by (auto simp: position_eval)
  then have month: "expected_goals_month pscore = Double (nearest_double (31 / 50))"
    by (simp add: float_examples)
  have total: "float_sum (\<lambda>c. final_multiplier True False c \<noteq> 0 \<and> in_month 2 2 (c_gw c))
          (\<lambda>c. f_expected_goals (c_fixture c))
          (contributions position_league position_collection 1 (py_range 1 (2 + 1)))
         = Double (5 / 8)"
    by (simp add: position_league_contributions float_sum_def in_month_def
        final_multiplier_def captain_rule_def bench_rule_def float_examples)
  from month total have "expected_goals_month pscore
         \<noteq> float_sum (\<lambda>c. final_multiplier True False c \<noteq> 0 \<and> in_month 2 2 (c_gw c))
             (\<lambda>c. f_expected_goals (c_fixture c))
             (contributions position_league position_collection 1 (py_range 1 (2 + 1)))"
    by (simp add: float_examples)
  with run month total show ?thesis by blast
qed

text \<open>
  Both reports on \<open>position_league\<close>, over two gameweeks with gameweek 2 as the month.
  The expected values are written as the float expressions they are.
\<close>

theorem month_accumulators_restrict_totals_witness:
  "(\<exists>scores score.
      fetch_captain_bench_transfer position_league 2 2 2 = Inr scores
      \<and> scores ''Ann FC'' = Some score
      \<and> points_on_bench_total score = 10 \<and> points_on_bench_month score = 5
      \<and> number_of_transfers_total score = 2 \<and> number_of_transfers_month score = 1
      \<and> captain_points_total score = 28 \<and> captain_points_month score = 8)
   \<and> (\<exists>pscores pscore.
      position_bench_goals_assists_xg_xa position_league round2_float 2 2 2 True False
        = Inr pscores
      \<and> pscores ''Ann FC'' = Some pscore
      \<and> position_total pscore forward = 28 \<and> position_month pscore forward = 8
      \<and> position_total pscore goalkeeper = 0 \<and> position_month pscore goalkeeper = 0
      \<and> bench_total pscore = 6 \<and> bench_month pscore = 1
      \<and> goals_total pscore = 3 \<and> goals_month pscore = 1
      \<and> assists_total pscore = 2 \<and> assists_month pscore = 1
      \<and> expected_goals_total pscore
          = round2_float (0 + float_parse (3 / 2) + float_parse (1 / 4) + float_parse (1 / 8)
                            + float_parse (1 / 2))
      \<and> expected_goals_month pscore = round2_float (0 + float_parse (1 / 8) + float_parse (1 / 2))
      \<and> expected_assists_total pscore
          = round2_float (0 + 0 + float_parse (3 / 4) + float_parse (1 / 2) + 0)
      \<and> expected_assists_month pscore = round2_float (0 + float_parse (1 / 2) + 0))"
proof -
  let ?ann = "\<lparr>name = ''Ann'', team = ''Ann FC''\<rparr>"
  have roster: "fetch_manager_information position_league = [] @ (1, ?ann) # []"
    by (simp add: fetch_manager_information_def position_league_def)
  have last: "\<forall>(i, m) \<in> set []. team m \<noteq> team ?ann"
    by simp
  have collection: "update_player_collection position_league = Inr position_collection"
    by (simp add: update_player_collection_def el_type_conversion_def position_league_def
        position_collection_def)
  obtain scores where
    run1: "fetch_captain_bench_transfer position_league 2 2 2 = Inr scores"
    by (simp add: fetch_captain_bench_transfer_def fetch_manager_information_def
        cbt_manager_def cbt_gameweek_def py_range_examples position_league_def)
  have "position_bench_goals_assists_xg_xa position_league round2_float 2 2 2 True False
          = position_managers position_league round2_float position_collection 2 2 2 True False
              Map.empty [(1, ?ann)]"
    by (simp add: position_bench_goals_assists_xg_xa_def collection roster)
  then obtain pscores where
    run2: "position_bench_goals_assists_xg_xa position_league round2_float 2 2 2 True False
             = Inr pscores"
    by (simp add: position_eval)
  from month_accumulators_restrict_totals [THEN conjunct2, THEN conjunct2, THEN conjunct1,
      THEN mp, OF conjI [OF run1 conjI [OF roster last]]]
  obtain c score c' where
    entry1: "scores ''Ann FC'' = Some score"
    and turn1: "cbt_manager position_league 2 2 2 c 1 = Inr (score, c')"
    by auto
  from month_accumulators_restrict_totals [THEN conjunct2, THEN conjunct2, THEN conjunct2,
      THEN mp, OF conjI [OF run2 conjI [OF roster last]]] collection
  obtain pscore where
    entry2: "pscores ''Ann FC'' = Some pscore"
    and turn2: "position_manager position_league round2_float position_collection 2 2 2
                  True False 1 = Inr pscore"
    by auto
  from month_accumulators_restrict_totals [THEN conjunct1, THEN mp, OF turn1] have a:
    "True
      \<and> points_on_bench_total score = 10 \<and> points_on_bench_month score = 5
      \<and> number_of_transfers_total score = 2 \<and> number_of_transfers_month score = 1
      \<and> captain_points_total score = 28 \<and> captain_points_month score = 8"
    by (simp add: stat_sum_def in_month_def py_range_examples position_league_def)
  from month_accumulators_restrict_totals [THEN conjunct2, THEN conjunct1, THEN mp, OF turn2]
  have b:
    "True
      \<and> position_total pscore forward = 28 \<and> position_month pscore forward = 8
      \<and> position_total pscore goalkeeper = 0 \<and> position_month pscore goalkeeper = 0
      \<and> bench_total pscore = 6 \<and> bench_month pscore = 1
      \<and> goals_total pscore = 3 \<and> goals_month pscore = 1
      \<and> assists_total pscore = 2 \<and> assists_month pscore = 1
      \<and> expected_goals_total pscore
          = round2_float (0 + float_parse (3 / 2) + float_parse (1 / 4) + float_parse (1 / 8)
                            + float_parse (1 / 2))
      \<and> expected_goals_month pscore = round2_float (0 + float_parse (1 / 8) + float_parse (1 / 2))
      \<and> expected_assists_total pscore
          = round2_float (0 + 0 + float_parse (3 / 4) + float_parse (1 / 2) + 0)
      \<and> expected_assists_month pscore = round2_float (0 + float_parse (1 / 2) + 0)"
    by (simp add: position_league_contributions stat_sum_def float_sum_def in_month_def
        benched_def final_multiplier_def captain_rule_def bench_rule_def)
  from run1 run2 entry1 entry2 a b show ?thesis by blast
qed

section \<open>The min/max points report\<close>

lemma lower_bound_Some: "lower_bound x (Some b) = Inr (Some (min x b))"
  by (simp add: lower_bound_def min_def)

lemma upper_bound_Some: "upper_bound x (Some b) = Inr (Some (max x b))"
  by (simp add: upper_bound_def max_def)











section \<open>What the reports hold\<close>

text \<open>
  Every entry of a report that is returned is the score the body of the loop over the
  managers produced for a manager of the league carrying the entry's key, for some value
  of the locals that survive from one manager to the next.
\<close>

lemma value_managers_entry:
  assumes "value_managers ds tenth s e scores locals ms = Inr scores'"
      and "scores' nm = Some sc"
  shows "scores nm = Some sc
       \<or> (\<exists>(mid, m) \<in> set ms. name m = nm
            \<and> (\<exists>l l'. value_manager tenth s e l (manager_history ds mid) = Inr (sc, l')))"
  using assms
proof (induction ms arbitrary: scores locals)
  case Nil
  then show ?case by simp
next
  case (Cons p ms)
  obtain mid m where p: "p = (mid, m)" by (cases p)
  from Cons.prems(1) p obtain score locals' where
    turn: "value_manager tenth s e locals (manager_history ds mid) = Inr (score, locals')"
    and rest: "value_managers ds tenth s e (scores(name m \<mapsto> score)) locals' ms = Inr scores'"
    by (auto split: sum.splits)
  from Cons.IH [OF rest Cons.prems(2)] turn p show ?case
    by (cases locals; cases locals') (auto split: if_splits)
qed

lemma value_report_entry:
  assumes "fetch_coach_of_the_month_and_team_value ds tenth s e = Inr scores"
      and "scores nm = Some sc"
  shows "\<exists>(mid, m) \<in> set (fetch_manager_information ds). name m = nm
            \<and> (\<exists>l l'. value_manager tenth s e l (manager_history ds mid) = Inr (sc, l'))"
  using value_managers_entry [OF assms [unfolded fetch_coach_of_the_month_and_team_value_def]]
  by simp

lemma cbt_managers_entry:
  assumes "cbt_managers ds sm em egt scores captain ms = Inr scores'"
      and "scores' tn = Some sc"
  shows "scores tn = Some sc
       \<or> (\<exists>(mid, m) \<in> set ms. team m = tn
            \<and> (\<exists>c c'. cbt_manager ds sm em egt c mid = Inr (sc, c')))"
  using assms
proof (induction ms arbitrary: scores captain)
  case Nil
  then show ?case by simp
next
  case (Cons p ms)
  obtain mid m where p: "p = (mid, m)" by (cases p)
  from Cons.prems(1) p obtain score captain' where
    turn: "cbt_manager ds sm em egt captain mid = Inr (score, captain')"
    and rest: "cbt_managers ds sm em egt (scores(team m \<mapsto> score)) captain' ms = Inr scores'"
    by (auto split: sum.splits)
  from Cons.IH [OF rest Cons.prems(2)] turn p show ?case
    by (auto split: if_splits)
qed

lemma cbt_report_entry:
  assumes "fetch_captain_bench_transfer ds sm em egt = Inr scores"
      and "scores tn = Some sc"
  shows "\<exists>(mid, m) \<in> set (fetch_manager_information ds). team m = tn
            \<and> (\<exists>c c'. cbt_manager ds sm em egt c mid = Inr (sc, c'))"
  using cbt_managers_entry [OF assms [unfolded fetch_captain_bench_transfer_def]]
  by simp

lemma position_managers_entry:
  assumes "position_managers ds round2 pc sm em egt cpi bi scores ms = Inr scores'"
      and "scores' tn = Some sc"
  shows "scores tn = Some sc
       \<or> (\<exists>(mid, m) \<in> set ms. team m = tn
            \<and> position_manager ds round2 pc sm em egt cpi bi mid = Inr sc)"
  using assms
proof (induction ms arbitrary: scores)
  case Nil
  then show ?case by simp
next
  case (Cons p ms)
  obtain mid m where p: "p = (mid, m)" by (cases p)
  from Cons.prems(1) p obtain score where
    turn: "position_manager ds round2 pc sm em egt cpi bi mid = Inr score"
    and rest: "position_managers ds round2 pc sm em egt cpi bi (scores(team m \<mapsto> score)) ms
                 = Inr scores'"
    by (auto split: sum.splits)
  from Cons.IH [OF rest Cons.prems(2)] turn p show ?case
    by (auto split: if_splits)
qed

lemma position_report_entry:
  assumes "position_bench_goals_assists_xg_xa ds round2 sm em egt cpi bi = Inr scores"
      and "scores tn = Some sc"
  shows "\<exists>pc. update_player_collection ds = Inr pc
           \<and> (\<exists>(mid, m) \<in> set (fetch_manager_information ds). team m = tn
                \<and> position_manager ds round2 pc sm em egt cpi bi mid = Inr sc)"
proof -
  from assms(1) obtain pc where
    pc: "update_player_collection ds = Inr pc"
    and run: "position_managers ds round2 pc sm em egt cpi bi Map.empty
                (fetch_manager_information ds) = Inr scores"
    by (auto simp: position_bench_goals_assists_xg_xa_def split: sum.splits)
  from position_managers_entry [OF run assms(2)] pc show ?thesis by simp
qed

lemma minmax_managers_entry:
  assumes "minmax_managers ds sm em scores ms = Inr scores'"
      and "scores' tn = Some sc"
  shows "scores tn = Some sc
       \<or> (\<exists>(mid, m) \<in> set ms. team m = tn
            \<and> minmax_manager sm em (manager_history ds mid) = Inr sc)"
  using assms
proof (induction ms arbitrary: scores)
  case Nil
  then show ?case by simp
next
  case (Cons p ms)
  obtain mid m where p: "p = (mid, m)" by (cases p)
  from Cons.prems(1) p obtain score where
    turn: "minmax_manager sm em (manager_history ds mid) = Inr score"
    and rest: "minmax_managers ds sm em (scores(team m \<mapsto> score)) ms = Inr scores'"
    by (auto split: sum.splits)
  from Cons.IH [OF rest Cons.prems(2)] turn p show ?case
    by (auto split: if_splits)
qed

lemma minmax_report_entry:
  assumes "least_and_most_points ds sm em = Inr scores"
      and "scores tn = Some sc"
  shows "\<exists>(mid, m) \<in> set (fetch_manager_information ds). team m = tn
            \<and> minmax_manager sm em (manager_history ds mid) = Inr sc"
  using minmax_managers_entry [OF assms [unfolded least_and_most_points_def]]
  by simp

end
